theory Spec2Isabelle
  imports Complex_Main "HOL-Library.Multiset"
begin

section \<open>Strings\<close>

text \<open>
  JavaScript strings are modelled as \<^typ>\<open>string\<close>, one \<^typ>\<open>char\<close> per code unit, over
  ASCII texts: \<open>toLowerCase\<close> maps \<open>A\<close>..\<open>Z\<close> to \<open>a\<close>..\<open>z\<close> and leaves every other
  character alone, and \<open>\s\<close> is the ASCII white space. \<open>s.includes(t)\<close>,
  \<open>s.split(' ')\<close> and \<open>xs.join(sep)\<close> are written out as recursive functions.
\<close>

definition toLowerChar :: "char \<Rightarrow> char" where
  "toLowerChar c =
     (case map_of (zip ''ABCDEFGHIJKLMNOPQRSTUVWXYZ'' ''abcdefghijklmnopqrstuvwxyz'') c of
        Some l \<Rightarrow> l
      | None \<Rightarrow> c)"

definition toLowerCase :: "string \<Rightarrow> string" where
  "toLowerCase s = map toLowerChar s"

definition startsWith :: "string \<Rightarrow> string \<Rightarrow> bool" where
  "startsWith s t = (take (length t) s = t)"

text \<open>\<open>includesStr s t\<close> is \<open>s.includes(t)\<close>: \<open>t\<close> occurs in \<open>s\<close> as a substring.\<close>

fun includesStr :: "string \<Rightarrow> string \<Rightarrow> bool" where
  "includesStr [] t = (t = [])"
| "includesStr (c # s) t = (startsWith (c # s) t \<or> includesStr s t)"

text \<open>\<open>splitStr sep s\<close> is \<open>s.split(sep)\<close> for a one-character separator: the empty
  string gives one empty word, and two separators in a row give an empty word.\<close>

fun splitStr :: "char \<Rightarrow> string \<Rightarrow> string list" where
  "splitStr sep [] = [[]]"
| "splitStr sep (c # cs) =
     (if c = sep then [] # splitStr sep cs
      else (case splitStr sep cs of
              [] \<Rightarrow> [[c]]
            | w # ws \<Rightarrow> (c # w) # ws))"

fun joinStr :: "string \<Rightarrow> string list \<Rightarrow> string" where
  "joinStr sep [] = []"
| "joinStr sep [x] = x"
| "joinStr sep (x # y # ys) = x @ sep @ joinStr sep (y # ys)"

fun tails :: "string \<Rightarrow> string list" where
  "tails [] = [[]]"
| "tails (c # cs) = (c # cs) # tails cs"

text \<open>
  The regular expressions tested in the handler are alternatives of literal words, some
  with \<open>\s*\<close> between two words. A pattern is the list of its alternatives; an alternative is
  a list of atoms. \<open>regexTest p s\<close> is \<open>p.test(s)\<close>: some alternative matches at some
  position of \<open>s\<close>.
\<close>

datatype atom = Lit string | Spaces

definition isSpaceChar :: "char \<Rightarrow> bool" where
  "isSpaceChar c = (c \<in> set [CHR 0x09, CHR 0x0A, CHR 0x0B, CHR 0x0C, CHR 0x0D, CHR 0x20])"

fun matchHere :: "atom list \<Rightarrow> string \<Rightarrow> bool" where
  "matchHere [] s = True"
| "matchHere (Lit p # rest) s = (startsWith s p \<and> matchHere rest (drop (length p) s))"
| "matchHere (Spaces # rest) [] = matchHere rest []"
| "matchHere (Spaces # rest) (c # cs) =
     (matchHere rest (c # cs) \<or> (isSpaceChar c \<and> matchHere (Spaces # rest) cs))"

definition regexTest :: "atom list list \<Rightarrow> string \<Rightarrow> bool" where
  "regexTest p s = list_ex (\<lambda>alt. list_ex (matchHere alt) (tails s)) p"

section \<open>Documents of the collection\<close>

text \<open>
  The interface \<open>MongoDocument\<close> of \<open>route.ts\<close>. Every field is optional there.
  \<open>doc_pageNumber\<close> is \<open>loc?.pageNumber\<close>. The fields \<open>_id\<close>, \<open>loc.lines\<close> and \<open>pdf\<close>
  are read by no retrieval step and are left out. Scores and embedding components are
  rationals; the literal \<open>0.6\<close> is read as \<open>6/10\<close>.
\<close>

type_synonym vector = "rat list"

record MongoDocument =
  doc_text :: "string option"
  doc_pageContent :: "string option"
  doc_content :: "string option"
  doc_source :: "string option"
  doc_fileName :: "string option"
  doc_pageNumber :: "nat option"
  doc_fileId :: "string option"
  doc_score :: "rat option"
  doc_embedding :: "vector option"

text \<open>\<open>doc.text || ''\<close> and \<open>doc.score ?? 0\<close>.\<close>

definition textOrEmpty :: "MongoDocument \<Rightarrow> string" where
  "textOrEmpty d = (case doc_text d of None \<Rightarrow> [] | Some t \<Rightarrow> t)"

definition scoreOrZero :: "MongoDocument \<Rightarrow> rat" where
  "scoreOrZero d = (case doc_score d of None \<Rightarrow> 0 | Some s \<Rightarrow> s)"

section \<open>Sorting with a comparator\<close>

text \<open>
  \<open>Array.prototype.sort\<close> with a comparator is stable: an element moves in front of
  another only when the comparator says so. \<open>sortBy cmp\<close> is the stable insertion sort:
  \<open>cmp a b < 0\<close> puts \<open>a\<close> first, \<open>cmp a b = 0\<close> keeps the order of arrival.
\<close>

fun insertBy :: "('a \<Rightarrow> 'a \<Rightarrow> int) \<Rightarrow> 'a \<Rightarrow> 'a list \<Rightarrow> 'a list" where
  "insertBy cmp x [] = [x]"
| "insertBy cmp x (y # ys) = (if cmp x y \<le> 0 then x # y # ys else y # insertBy cmp x ys)"

definition sortBy :: "('a \<Rightarrow> 'a \<Rightarrow> int) \<Rightarrow> 'a list \<Rightarrow> 'a list" where
  "sortBy cmp xs = foldr (insertBy cmp) xs []"

section \<open>The ranking steps of the fallback strategies\<close>

subsection \<open>Strategy 2: overview pages first\<close>

definition introScore :: "MongoDocument \<Rightarrow> nat" where
  "introScore d =
     (let t = toLowerCase (textOrEmpty d) in
        (if includesStr t ''introduction'' then 3 else 0) +
        (if includesStr t ''overview'' then 2 else 0) +
        (if includesStr t ''this book'' then 2 else 0) +
        (if includesStr t ''covers'' then 1 else 0))"

definition overviewCompare :: "MongoDocument \<Rightarrow> MongoDocument \<Rightarrow> int" where
  "overviewCompare a b = int (introScore b) - int (introScore a)"

definition rankOverviewDocs :: "MongoDocument list \<Rightarrow> MongoDocument list" where
  "rankOverviewDocs docs = (if docs \<noteq> [] then take 8 (sortBy overviewCompare docs) else docs)"

subsection \<open>Strategy 3: keywords\<close>

definition stopWords :: "string list" where
  "stopWords = [''can'', ''you'', ''tell'', ''me'', ''about'', ''what'', ''is'', ''the'', ''a'',
     ''an'', ''and'', ''or'', ''but'', ''for'', ''with'', ''this'', ''that'', ''explain'', ''topic'']"

definition meaningfulKeywords :: "string \<Rightarrow> string list" where
  "meaningfulKeywords questionLower =
     filter (\<lambda>word. length word > 3 \<and> word \<notin> set stopWords) (splitStr CHR '' '' questionLower)"

definition isOverviewPage :: "MongoDocument \<Rightarrow> bool" where
  "isOverviewPage d =
     (let t = textOrEmpty d in
        includesStr t ''Oxford Master Series'' \<or>
        includesStr t ''course books'' \<or>
        includesStr t ''tutorial material'' \<or>
        length t < 300)"

text \<open>\<open>keywordMatches\<close> is \<open>aMatches\<close>: the number of entries of the keyword list that occur
  in the lower-cased text. \<open>lengthScore\<close> is \<open>aScore\<close>: 1 when the lower-cased text has 500
  to 2000 characters.\<close>

definition keywordMatches :: "string list \<Rightarrow> MongoDocument \<Rightarrow> nat" where
  "keywordMatches keywords d =
     length (filter (\<lambda>keyword. includesStr (toLowerCase (textOrEmpty d)) keyword) keywords)"

definition lengthScore :: "MongoDocument \<Rightarrow> nat" where
  "lengthScore d =
     (let n = length (toLowerCase (textOrEmpty d)) in if n \<ge> 500 \<and> n \<le> 2000 then 1 else 0)"

definition keywordCompare :: "string list \<Rightarrow> MongoDocument \<Rightarrow> MongoDocument \<Rightarrow> int" where
  "keywordCompare keywords a b =
     (if keywordMatches keywords b \<noteq> keywordMatches keywords a
      then int (keywordMatches keywords b) - int (keywordMatches keywords a)
      else int (lengthScore b) - int (lengthScore a))"

definition rankKeywordDocs :: "string list \<Rightarrow> MongoDocument list \<Rightarrow> MongoDocument list" where
  "rankKeywordDocs keywords allDocs =
     (let contentDocs = filter (\<lambda>d. \<not> isOverviewPage d) allDocs;
          docsToSort = (if contentDocs \<noteq> [] then contentDocs else allDocs)
      in take 8 (sortBy (keywordCompare keywords) docsToSort))"

section \<open>The collection and the embedding service as seen by the handler\<close>

text \<open>
  The handler talks to the MongoDB collection and to the embedding service. A query is
  kept as the filter document the code builds, so that what a query asks for can be read
  off the call. \<open>FileIdEq f\<close> is \<open>{ fileId: f }\<close> (and \<open>{ fileId: { $eq: f } }\<close>),
  \<open>TextRegex r o\<close> is \<open>{ text: { $regex: r, $options: o } }\<close>, \<open>TextNotRegex\<close> its
  \<open>$not\<close>, \<open>Where js\<close> is \<open>{ $where: js }\<close> and \<open>MatchAll\<close> is \<open>{}\<close>.
\<close>

datatype query =
    FileIdEq string
  | TextRegex string string
  | TextNotRegex string string
  | Where string
  | And "query list"
  | Or "query list"
  | MatchAll

text \<open>The stages of an aggregation pipeline: \<open>VectorSearch index path queryVector
  numCandidates limit filter\<close>, \<open>Project fields\<close>, \<open>Match query\<close> and \<open>Sample size\<close>.\<close>

datatype stage =
    VectorSearch string string vector nat nat "query option"
  | Project "string list"
  | Match query
  | Sample nat

datatype call =
    Connect
  | CountDocuments query
  | EmbedQuery string
  | Aggregate "stage list"
  | FindOne query
  | Find query nat
  | Close

text \<open>Every call is logged with the part of the handler that makes it.\<close>

datatype phase = Setup | Stage0 | Gate | Stage1 | Stage2 | Stage3 | Stage4 | Teardown

type_synonym event = "phase \<times> call"

datatype error = Error string

text \<open>
  The outside world of one request: what each call answers, or the error it throws.
  \<open>findLimit q n\<close> is \<open>collection.find(q).limit(n).toArray()\<close>. No query is issued twice
  in one request, so an answer per query loses nothing. \<open>compose\<close> stands for the
  response templates (the text of the answer, from the question, the context, the chunks
  and the chunk count of the file), which are not modelled.
\<close>

record world =
  connect :: "error + unit"
  countDocuments :: "query \<Rightarrow> error + nat"
  embedQuery :: "string \<Rightarrow> error + vector"
  aggregate :: "stage list \<Rightarrow> error + MongoDocument list"
  findOne :: "query \<Rightarrow> error + MongoDocument option"
  findLimit :: "query \<Rightarrow> nat \<Rightarrow> error + MongoDocument list"
  compose :: "string \<Rightarrow> string \<Rightarrow> MongoDocument list \<Rightarrow> nat \<Rightarrow> string"

text \<open>
  A computation returns a value or throws, and leaves the log of the calls it made.
  \<open>bind\<close> is sequencing (\<open>await\<close>), \<open>catch\<close> is \<open>try { ... } catch\<close>, \<open>request\<close> makes
  one call.
\<close>

type_synonym 'a io = "(error + 'a) \<times> event list"

definition ret :: "'a \<Rightarrow> 'a io" where
  "ret x = (Inr x, [])"

definition bind :: "'a io \<Rightarrow> ('a \<Rightarrow> 'b io) \<Rightarrow> 'b io" where
  "bind m f =
     (case m of
        (Inl e, tr) \<Rightarrow> (Inl e, tr)
      | (Inr x, tr) \<Rightarrow> (case f x of (r, tr') \<Rightarrow> (r, tr @ tr')))"

definition catch :: "'a io \<Rightarrow> (error \<Rightarrow> 'a io) \<Rightarrow> 'a io" where
  "catch m h =
     (case m of
        (Inl e, tr) \<Rightarrow> (case h e of (r, tr') \<Rightarrow> (r, tr @ tr'))
      | (Inr x, tr) \<Rightarrow> (Inr x, tr))"

definition request :: "phase \<Rightarrow> call \<Rightarrow> error + 'a \<Rightarrow> 'a io" where
  "request ph c answer = (answer, [(ph, c)])"

section \<open>Stage 0: vector search\<close>

definition scoreThreshold :: rat where
  "scoreThreshold = 6 / 10"

definition vectorSearchPipeline :: "string \<Rightarrow> vector \<Rightarrow> stage list" where
  "vectorSearchPipeline pdfId questionEmbedding =
     [VectorSearch ''vector_index'' ''embedding'' questionEmbedding 20 5 (Some (FileIdEq pdfId)),
      Project [''text'', ''source'', ''fileName'', ''loc'', ''fileId'', ''score'']]"

definition altPipeline :: "string \<Rightarrow> vector \<Rightarrow> stage list" where
  "altPipeline indexName questionEmbedding =
     [VectorSearch indexName ''embedding'' questionEmbedding 10 3 None,
      Project [''text'', ''score'']]"

definition alternativeIndexes :: "string list" where
  "alternativeIndexes = [''default'', ''vector_search_index'', ''embeddings_index'']"

text \<open>Lines 119 to 128: the documents at or above the threshold are kept.\<close>

definition applyScoreThreshold :: "MongoDocument list \<Rightarrow> MongoDocument list" where
  "applyScoreThreshold docs =
     (let relevantDocs = filter (\<lambda>doc. scoreOrZero doc \<ge> scoreThreshold) docs in
        if relevantDocs = [] \<and> docs \<noteq> [] \<and>
           (case docs of [] \<Rightarrow> False | d # _ \<Rightarrow> scoreOrZero d < scoreThreshold)
        then []
        else relevantDocs)"

text \<open>The loop of lines 144 to 176: an index that throws or finds nothing is skipped, the
  first one that finds documents ends the loop.\<close>

fun tryAlternativeIndexes :: "world \<Rightarrow> vector \<Rightarrow> string list \<Rightarrow> MongoDocument list io" where
  "tryAlternativeIndexes w qe [] = ret []"
| "tryAlternativeIndexes w qe (indexName # rest) =
     bind (catch (request Stage0 (Aggregate (altPipeline indexName qe))
                    (aggregate w (altPipeline indexName qe)))
                 (\<lambda>altError. ret []))
          (\<lambda>altDocs. if altDocs \<noteq> [] then ret altDocs else tryAlternativeIndexes w qe rest)"

text \<open>Lines 86 to 181. An error of the first search or of \<open>findOne\<close> is caught and leaves
  \<open>docs\<close> empty.\<close>

definition vectorSearch :: "world \<Rightarrow> string \<Rightarrow> vector \<Rightarrow> MongoDocument list io" where
  "vectorSearch w pdfId qe =
     catch
       (bind (request Stage0 (Aggregate (vectorSearchPipeline pdfId qe))
                (aggregate w (vectorSearchPipeline pdfId qe)))
          (\<lambda>docs.
             if docs \<noteq> [] then ret (applyScoreThreshold docs)
             else bind (request Stage0 (FindOne MatchAll) (findOne w MatchAll))
                    (\<lambda>sampleDoc. tryAlternativeIndexes w qe alternativeIndexes)))
       (\<lambda>vectorError. ret [])"

section \<open>The relevance check\<close>

definition isGeneralPdfQuestion :: "string \<Rightarrow> bool" where
  "isGeneralPdfQuestion questionLower =
     list_ex (includesStr questionLower)
       [''pdf'', ''document'', ''file'', ''details about this'', ''summary'', ''overview'',
        ''tell me about'', ''what is this'', ''contents'', ''topics'', ''chapters'', ''sections'']"

definition commonTerms :: "string list" where
  "commonTerms = [''photon'', ''matter'', ''interaction'', ''physics'', ''energy'', ''quantum'',
     ''electron'', ''atom'', ''radiation'', ''medical'', ''helium'', ''approximation'', ''model'']"

definition sampleContent :: "MongoDocument list \<Rightarrow> string" where
  "sampleContent sampleDocs = toLowerCase (joinStr '' '' (map textOrEmpty sampleDocs))"

definition documentTerms :: "MongoDocument list \<Rightarrow> string list" where
  "documentTerms sampleDocs = filter (includesStr (sampleContent sampleDocs)) commonTerms"

definition questionTerms :: "string \<Rightarrow> string list" where
  "questionTerms questionLower = filter (\<lambda>word. length word > 3) (splitStr CHR '' '' questionLower)"

definition hasRelevantTerms :: "string \<Rightarrow> MongoDocument list \<Rightarrow> bool" where
  "hasRelevantTerms questionLower sampleDocs =
     list_ex (\<lambda>term. list_ex (\<lambda>docTerm. includesStr term docTerm \<or> includesStr docTerm term)
                        (documentTerms sampleDocs))
       (questionTerms questionLower)"

definition unrelatedPatterns :: "atom list list list" where
  "unrelatedPatterns =
     [[[Lit ''window'', Spaces, Lit ''11''], [Lit ''windows'', Spaces, Lit ''11'']],
      [[Lit ''microsoft'', Spaces, Lit ''office'']],
      [[Lit ''adobe''], [Lit ''pdf'', Spaces, Lit ''reader'']],
      [[Lit ''computer''], [Lit ''software''], [Lit ''app'']],
      [[Lit ''weather''], [Lit ''climate'']],
      [[Lit ''food''], [Lit ''recipe''], [Lit ''cooking'']],
      [[Lit ''sports''], [Lit ''football''], [Lit ''basketball'']],
      [[Lit ''movie''], [Lit ''film''], [Lit ''entertainment'']],
      [[Lit ''music''], [Lit ''song''], [Lit ''artist'']],
      [[Lit ''travel''], [Lit ''vacation''], [Lit ''hotel'']],
      [[Lit ''shopping''], [Lit ''purchase''], [Lit ''buy'']]]"

definition isObviouslyUnrelated :: "string \<Rightarrow> bool" where
  "isObviouslyUnrelated questionLower = list_ex (\<lambda>pattern. regexTest pattern questionLower) unrelatedPatterns"

text \<open>The condition of line 249, on the lower-cased question and the sampled documents.\<close>

definition questionRejected :: "string \<Rightarrow> MongoDocument list \<Rightarrow> bool" where
  "questionRejected questionLower sampleDocs =
     (isObviouslyUnrelated questionLower \<or>
      (\<not> hasRelevantTerms questionLower sampleDocs \<and> length (questionTerms questionLower) > 0))"

text \<open>Lines 185 to 258. The result is \<open>True\<close> when the handler returns the rejection.\<close>

definition relevanceGate :: "world \<Rightarrow> string \<Rightarrow> string \<Rightarrow> bool io" where
  "relevanceGate w pdfId questionLower =
     (if isGeneralPdfQuestion questionLower then ret False
      else bind (request Gate (Find (FileIdEq pdfId) 3) (findLimit w (FileIdEq pdfId) 3))
             (\<lambda>sampleDocs. ret (questionRejected questionLower sampleDocs)))"

section \<open>Stages 1 to 4: the fallback strategies\<close>

text \<open>The backslash of \<open>\d\<close> and \<open>\.\<close> is written \<open>CHR 0x5C\<close>.\<close>

definition isListingRequest :: "string \<Rightarrow> bool" where
  "isListingRequest questionLower =
     (includesStr questionLower ''list'' \<and>
      (includesStr questionLower ''topic'' \<or> includesStr questionLower ''chapter'' \<or>
       includesStr questionLower ''subject'') \<and>
      \<not> includesStr questionLower ''explain'' \<and>
      \<not> includesStr questionLower ''about'' \<and>
      length (splitStr CHR '' '' questionLower) < 8)"

definition isOverviewRequest :: "string \<Rightarrow> bool" where
  "isOverviewRequest questionLower =
     (includesStr questionLower ''detail'' \<and>
      (includesStr questionLower ''pdf'' \<or> includesStr questionLower ''document'' \<or>
       includesStr questionLower ''book''))"

definition structureQuery :: "string \<Rightarrow> query" where
  "structureQuery pdfId =
     And [FileIdEq pdfId,
          Or [TextRegex ''contents|index|chapter|section|part|unit'' ''i'',
              TextRegex (''^'' @ [CHR 0x5C] @ ''d+'' @ [CHR 0x5C] @ ''.'') ''m'',
              TextRegex (''table of contents|index|chapter '' @ [CHR 0x5C] @ ''d+'') ''i'']]"

definition headingQuery :: "string \<Rightarrow> query" where
  "headingQuery pdfId =
     And [FileIdEq pdfId, Where ''this.text.length < 200 && this.text.length > 10'']"

definition structureSearch :: "world \<Rightarrow> string \<Rightarrow> MongoDocument list io" where
  "structureSearch w pdfId =
     bind (request Stage1 (Find (structureQuery pdfId) 10) (findLimit w (structureQuery pdfId) 10))
       (\<lambda>docs.
          if docs = []
          then request Stage1 (Find (headingQuery pdfId) 10) (findLimit w (headingQuery pdfId) 10)
          else ret docs)"

definition overviewQuery :: "string \<Rightarrow> query" where
  "overviewQuery pdfId =
     And [FileIdEq pdfId,
          Or [TextRegex ''introduction|abstract|overview|preface|summary|purpose|scope'' ''i'',
              TextRegex ''this book|this text|this work|covers|discusses'' ''i'',
              TextRegex ''chapter.*cover|section.*discuss|topics.*include'' ''i'']]"

definition overviewSearch :: "world \<Rightarrow> string \<Rightarrow> MongoDocument list io" where
  "overviewSearch w pdfId =
     bind (request Stage2 (Find (overviewQuery pdfId) 10) (findLimit w (overviewQuery pdfId) 10))
       (\<lambda>docs. ret (rankOverviewDocs docs))"

definition keywordQuery :: "string \<Rightarrow> string list \<Rightarrow> query" where
  "keywordQuery pdfId keywords =
     And [FileIdEq pdfId, Or (map (\<lambda>keyword. TextRegex keyword ''i'') keywords)]"

definition specificQuery :: "string \<Rightarrow> string list \<Rightarrow> query" where
  "specificQuery pdfId keywords =
     And [FileIdEq pdfId,
          Or (map (\<lambda>keyword. TextRegex keyword ''i'') keywords),
          Or [TextRegex ''chapter|section|equation|formula|energy|electron|quantum'' ''i'',
              Where ''this.text.length > 500''],
          TextNotRegex ''Oxford Master Series|course books|tutorial material'' ''i'']"

text \<open>The test of line 418 on the ranked documents.\<close>

definition stillOverview :: "MongoDocument list \<Rightarrow> bool" where
  "stillOverview docs =
     (case docs of
        [] \<Rightarrow> False
      | d # _ \<Rightarrow> (case doc_text d of
                    None \<Rightarrow> False
                  | Some t \<Rightarrow> t \<noteq> [] \<and> includesStr t ''Oxford Master Series''))"

definition keywordSearch :: "world \<Rightarrow> string \<Rightarrow> string \<Rightarrow> MongoDocument list io" where
  "keywordSearch w pdfId questionLower =
     (let keywords = meaningfulKeywords questionLower in
        if keywords \<noteq> []
        then bind (request Stage3 (Find (keywordQuery pdfId keywords) 20)
                     (findLimit w (keywordQuery pdfId keywords) 20))
               (\<lambda>allDocs.
                  if allDocs \<noteq> []
                  then (let docs = rankKeywordDocs keywords allDocs in
                          if stillOverview docs
                          then bind (request Stage3 (Find (specificQuery pdfId keywords) 8)
                                       (findLimit w (specificQuery pdfId keywords) 8))
                                 (\<lambda>specificDocs. ret (if specificDocs \<noteq> [] then specificDocs else docs))
                          else ret docs)
                  else ret [])
        else ret [])"

text \<open>Lines 264 to 453: exactly one of the three strategies is tried.\<close>

definition fallbackSearch :: "world \<Rightarrow> string \<Rightarrow> string \<Rightarrow> MongoDocument list io" where
  "fallbackSearch w pdfId questionLower =
     (if isListingRequest questionLower then structureSearch w pdfId
      else if isOverviewRequest questionLower then overviewSearch w pdfId
      else keywordSearch w pdfId questionLower)"

definition samplePipeline :: "string \<Rightarrow> stage list" where
  "samplePipeline pdfId = [Match (FileIdEq pdfId), Sample 8]"

definition diverseSample :: "world \<Rightarrow> string \<Rightarrow> MongoDocument list io" where
  "diverseSample w pdfId =
     request Stage4 (Aggregate (samplePipeline pdfId)) (aggregate w (samplePipeline pdfId))"

section \<open>The cascade and the handler\<close>

datatype retrieval = Irrelevant | Retrieved "MongoDocument list"

text \<open>
  Lines 86 to 466, from the question's embedding to the final \<open>docs\<close>. The three tests
  \<open>docs.length === 0\<close> in a row are nested here: \<open>docs\<close> changes only inside them.
\<close>

definition retrieve :: "world \<Rightarrow> string \<Rightarrow> string \<Rightarrow> vector \<Rightarrow> retrieval io" where
  "retrieve w pdfId question qe =
     bind (vectorSearch w pdfId qe)
       (\<lambda>docs0.
          if docs0 \<noteq> [] then ret (Retrieved docs0)
          else bind (relevanceGate w pdfId (toLowerCase question))
                 (\<lambda>rejected.
                    if rejected then ret Irrelevant
                    else bind (fallbackSearch w pdfId (toLowerCase question))
                           (\<lambda>docs1.
                              if docs1 \<noteq> [] then ret (Retrieved docs1)
                              else bind (diverseSample w pdfId) (\<lambda>docs2. ret (Retrieved docs2)))))"

record sourceEntry =
  src_pageContent :: string
  src_source :: "string option"
  src_fileName :: "string option"
  src_pageNumber :: "nat option"

datatype response = ErrorResponse string nat | AnswerResponse string "sourceEntry list"

text \<open>\<open>a || b\<close> on an optional string: an absent or empty \<open>a\<close> gives \<open>b\<close>.\<close>

definition orElse :: "string option \<Rightarrow> string \<Rightarrow> string" where
  "orElse a b = (case a of None \<Rightarrow> b | Some s \<Rightarrow> if s \<noteq> [] then s else b)"

definition contextOf :: "MongoDocument list \<Rightarrow> string" where
  "contextOf docs =
     joinStr [CHR 0x0A, CHR 0x0A]
       (map (\<lambda>doc. orElse (doc_text doc) (orElse (doc_pageContent doc) (orElse (doc_content doc) []))) docs)"

definition sourcesOf :: "MongoDocument list \<Rightarrow> sourceEntry list" where
  "sourcesOf docs =
     map (\<lambda>doc. \<lparr>src_pageContent = orElse (doc_text doc) (orElse (doc_pageContent doc) []),
                 src_source = doc_source doc,
                 src_fileName = doc_fileName doc,
                 src_pageNumber = doc_pageNumber doc\<rparr>) docs"

definition noDocumentsAnswer :: string where
  "noDocumentsAnswer = ''I don't have any documents to search through. Please make sure your PDF was uploaded successfully.''"

definition unrelatedAnswer :: string where
  "unrelatedAnswer = ''I can only answer questions related to the content of your uploaded PDF. Your question doesn't seem to be related to the topics covered in this document. Please ask me something about the content in your PDF.''"

definition noContentAnswer :: string where
  "noContentAnswer = ''I found the PDF collection but there's no readable content. Please try uploading the PDF again.''"

text \<open>Lines 479 to 604: the response built from the final \<open>docs\<close>.\<close>

definition respond :: "world \<Rightarrow> string \<Rightarrow> MongoDocument list \<Rightarrow> nat \<Rightarrow> response" where
  "respond w question docs docCount =
     (let context = contextOf docs in
        if context = [] then AnswerResponse noContentAnswer []
        else AnswerResponse (compose w question context docs docCount) (sourcesOf docs))"

text \<open>Lines 50 to 604, the body of the outer \<open>try\<close>. \<open>client.close()\<close> is taken not to
  throw.\<close>

definition answerQuestion :: "world \<Rightarrow> string \<Rightarrow> string \<Rightarrow> response io" where
  "answerQuestion w pdfId question =
     bind (request Setup Connect (connect w))
       (\<lambda>_. bind (request Setup (CountDocuments (FileIdEq pdfId)) (countDocuments w (FileIdEq pdfId)))
          (\<lambda>docCount.
             if docCount = 0
             then bind (request Teardown Close (Inr ()))
                    (\<lambda>_. ret (AnswerResponse noDocumentsAnswer []))
             else bind (request Setup (EmbedQuery question) (embedQuery w question))
                    (\<lambda>questionEmbedding.
                       bind (retrieve w pdfId question questionEmbedding)
                         (\<lambda>r. case r of
                                Irrelevant \<Rightarrow>
                                  bind (request Teardown Close (Inr ()))
                                    (\<lambda>_. ret (AnswerResponse unrelatedAnswer []))
                              | Retrieved docs \<Rightarrow>
                                  bind (request Teardown Close (Inr ()))
                                    (\<lambda>_. ret (respond w question docs docCount))))))"

datatype role = User | Assistant

record ChatMessage =
  msg_role :: role
  msg_content :: string

text \<open>The JSON body: \<open>body_messages\<close> is \<open>body.messages || []\<close>, \<open>body_pdfId\<close> is
  \<open>body.pdfId\<close>.\<close>

record requestBody =
  body_messages :: "ChatMessage list"
  body_pdfId :: string

text \<open>The handler \<open>POST\<close>: the response and the log of the calls made for it.\<close>

definition POST :: "world \<Rightarrow> requestBody \<Rightarrow> response \<times> event list" where
  "POST w body =
     (case body_messages body of
        [] \<Rightarrow> (ErrorResponse ''No messages provided'' 400, [])
      | _ # _ \<Rightarrow>
          (let question = msg_content (last (body_messages body)) in
             if question = [] then (ErrorResponse ''Question is required'' 400, [])
             else (case answerQuestion w (body_pdfId body) question of
                     (Inl e, tr) \<Rightarrow> (ErrorResponse ''Internal Server Error'' 500, tr)
                   | (Inr r, tr) \<Rightarrow> (r, tr))))"

section \<open>Ingestion: \<open>embedAndStoreDocs\<close>\<close>

text \<open>A LangChain document: its text and the metadata the upload route attaches.\<close>

record metadata =
  md_fileId :: "string option"
  md_fileName :: "string option"
  md_source :: "string option"
  md_pageNumber :: "nat option"

record Document =
  pageContent :: string
  metadata :: metadata

type_synonym collection = "MongoDocument list"

text \<open>
  Modelled from the spec: the Chunk Store operations \<open>countDocuments\<close>, \<open>deleteMany\<close> and
  \<open>insertMany\<close> (section 6) on a collection held as the list of its documents, for the
  filter \<open>{ fileId: f }\<close>. They belong to the MongoDB driver, which is not under src/.
\<close>

definition countByFileId :: "collection \<Rightarrow> string \<Rightarrow> nat" where
  "countByFileId coll f = length (filter (\<lambda>c. doc_fileId c = Some f) coll)"

definition deleteMany :: "collection \<Rightarrow> string \<Rightarrow> collection" where
  "deleteMany coll f = filter (\<lambda>c. doc_fileId c \<noteq> Some f) coll"

definition insertMany :: "collection \<Rightarrow> MongoDocument list \<Rightarrow> collection" where
  "insertMany coll docs = coll @ docs"

text \<open>
  Modelled from the spec: \<open>MongoDBAtlasVectorSearch.fromDocuments\<close> of LangChain, which is
  not under src/: every text is embedded (a failure of the embedding service throws and
  stores nothing), then the chunks are inserted with \<open>insertMany\<close>, each as its text, its
  embedding and the fields of its metadata.
\<close>

fun embedDocuments :: "(string \<Rightarrow> error + vector) \<Rightarrow> string list \<Rightarrow> error + vector list" where
  "embedDocuments embeddings [] = Inr []"
| "embedDocuments embeddings (t # ts) =
     (case embeddings t of
        Inl e \<Rightarrow> Inl e
      | Inr v \<Rightarrow> (case embedDocuments embeddings ts of Inl e \<Rightarrow> Inl e | Inr vs \<Rightarrow> Inr (v # vs)))"

definition storedChunk :: "Document \<Rightarrow> vector \<Rightarrow> MongoDocument" where
  "storedChunk d v =
     \<lparr>doc_text = Some (pageContent d), doc_pageContent = None, doc_content = None,
      doc_source = md_source (metadata d), doc_fileName = md_fileName (metadata d),
      doc_pageNumber = md_pageNumber (metadata d), doc_fileId = md_fileId (metadata d),
      doc_score = None, doc_embedding = Some v\<rparr>"

definition fromDocuments ::
  "(string \<Rightarrow> error + vector) \<Rightarrow> Document list \<Rightarrow> collection \<Rightarrow> (error + unit) \<times> collection" where
  "fromDocuments embeddings docs coll =
     (case embedDocuments embeddings (map pageContent docs) of
        Inl e \<Rightarrow> (Inl e, coll)
      | Inr vs \<Rightarrow> (Inr (), insertMany coll (map2 storedChunk docs vs)))"

text \<open>
  \<open>embedAndStoreDocs\<close> of \<open>vectorStore.ts\<close>, lines 27 to 50: the result is what the call
  returns or throws, and the collection it leaves. \<open>if (fileId)\<close> holds for a present,
  non-empty string.
\<close>

definition embedAndStoreDocs ::
  "(string \<Rightarrow> error + vector) \<Rightarrow> Document list \<Rightarrow> collection \<Rightarrow> (error + unit) \<times> collection" where
  "embedAndStoreDocs embeddings docs coll =
     (let fileId = (case docs of [] \<Rightarrow> None | firstDoc # _ \<Rightarrow> md_fileId (metadata firstDoc));
          coll' = (case fileId of
                     None \<Rightarrow> coll
                   | Some f \<Rightarrow>
                       if f \<noteq> [] then (if countByFileId coll f > 0 then deleteMany coll f else coll)
                       else coll)
      in fromDocuments embeddings docs coll')"

section \<open>Notions used in the claims\<close>

text \<open>
  \<open>rankedBefore keywords a b\<close>: \<open>a\<close> may stand in front of \<open>b\<close> in the ranking of
  strategy 3, that is, \<open>a\<close> matches more keywords, or as many and its length score is not
  the smaller one.
\<close>

definition rankedBefore :: "string list \<Rightarrow> MongoDocument \<Rightarrow> MongoDocument \<Rightarrow> bool" where
  "rankedBefore keywords a b =
     (keywordMatches keywords b < keywordMatches keywords a \<or>
      (keywordMatches keywords b = keywordMatches keywords a \<and> lengthScore b \<le> lengthScore a))"

text \<open>
  A call is restricted to the file \<open>f\<close> when its filter is \<open>{ fileId: f }\<close> or a
  conjunction with it: the filter of \<open>countDocuments\<close>, \<open>find\<close> and \<open>findOne\<close>, the
  \<open>filter\<close> of a \<open>$vectorSearch\<close>, the query of a leading \<open>$match\<close>.
\<close>

definition queryRestricted :: "string \<Rightarrow> query \<Rightarrow> bool" where
  "queryRestricted f q =
     (case q of
        FileIdEq g \<Rightarrow> g = f
      | And qs \<Rightarrow> FileIdEq f \<in> set qs
      | _ \<Rightarrow> False)"

definition callRestricted :: "string \<Rightarrow> call \<Rightarrow> bool" where
  "callRestricted f c =
     (case c of
        CountDocuments q \<Rightarrow> queryRestricted f q
      | FindOne q \<Rightarrow> queryRestricted f q
      | Find q n \<Rightarrow> queryRestricted f q
      | Aggregate (VectorSearch i p v n l flt # _) \<Rightarrow> flt = Some (FileIdEq f)
      | Aggregate (Match q # _) \<Rightarrow> queryRestricted f q
      | Aggregate _ \<Rightarrow> False
      | _ \<Rightarrow> True)"

text \<open>
  The stages of the cascade in their fixed order, the position of every part of the handler
  in the code (\<open>phaseIndex\<close>), and what each stage does when it runs (\<open>runStage\<close>).
\<close>

definition cascadeOrder :: "phase list" where
  "cascadeOrder = [Stage0, Stage1, Stage2, Stage3, Stage4]"

fun phaseIndex :: "phase \<Rightarrow> nat" where
  "phaseIndex Setup = 0"
| "phaseIndex Stage0 = 1"
| "phaseIndex Gate = 2"
| "phaseIndex Stage1 = 3"
| "phaseIndex Stage2 = 4"
| "phaseIndex Stage3 = 5"
| "phaseIndex Stage4 = 6"
| "phaseIndex Teardown = 7"

fun runStage :: "world \<Rightarrow> string \<Rightarrow> string \<Rightarrow> vector \<Rightarrow> phase \<Rightarrow> MongoDocument list io" where
  "runStage w pdfId questionLower qe Stage0 = vectorSearch w pdfId qe"
| "runStage w pdfId questionLower qe Stage1 = structureSearch w pdfId"
| "runStage w pdfId questionLower qe Stage2 = overviewSearch w pdfId"
| "runStage w pdfId questionLower qe Stage3 = keywordSearch w pdfId questionLower"
| "runStage w pdfId questionLower qe Stage4 = diverseSample w pdfId"
| "runStage w pdfId questionLower qe _ = ret []"

text \<open>
  \<open>stageTriggered\<close>: the stage is the one the handler enters for a question of this shape,
  read off the \<open>if\<close>/\<open>else\<close> of lines 278, 311 and 350: the strategies 1, 2 and 3 are
  alternatives, and stages 0 and 4 do not depend on the question.
\<close>

fun stageTriggered :: "string \<Rightarrow> phase \<Rightarrow> bool" where
  "stageTriggered questionLower Stage0 = True"
| "stageTriggered questionLower Stage1 = isListingRequest questionLower"
| "stageTriggered questionLower Stage2 =
     (\<not> isListingRequest questionLower \<and> isOverviewRequest questionLower)"
| "stageTriggered questionLower Stage3 =
     (\<not> isListingRequest questionLower \<and> \<not> isOverviewRequest questionLower)"
| "stageTriggered questionLower Stage4 = True"
| "stageTriggered questionLower _ = False"

text \<open>
  \<open>specTriggered\<close> follows the words of the specification (section 4.2), to be compared
  with \<open>stageTriggered\<close>: stage 1 is triggered by a listing request, stage 2 by a request
  for details about the pdf, document or book, stage 3 is the default path for all other
  questions.
\<close>

fun specTriggered :: "string \<Rightarrow> phase \<Rightarrow> bool" where
  "specTriggered questionLower Stage0 = True"
| "specTriggered questionLower Stage1 = isListingRequest questionLower"
| "specTriggered questionLower Stage2 = isOverviewRequest questionLower"
| "specTriggered questionLower Stage3 =
     (\<not> isListingRequest questionLower \<and> \<not> isOverviewRequest questionLower)"
| "specTriggered questionLower Stage4 = True"
| "specTriggered questionLower _ = False"

text \<open>A stage yields when it is triggered and, run on the collection, returns at least one
  chunk.\<close>

definition nonEmptyResult :: "MongoDocument list io \<Rightarrow> bool" where
  "nonEmptyResult m = (case fst m of Inl e \<Rightarrow> False | Inr docs \<Rightarrow> docs \<noteq> [])"

definition stageYields :: "world \<Rightarrow> string \<Rightarrow> string \<Rightarrow> vector \<Rightarrow> phase \<Rightarrow> bool" where
  "stageYields w pdfId questionLower qe st =
     (stageTriggered questionLower st \<and> nonEmptyResult (runStage w pdfId questionLower qe st))"

definition specYields :: "world \<Rightarrow> string \<Rightarrow> string \<Rightarrow> vector \<Rightarrow> phase \<Rightarrow> bool" where
  "specYields w pdfId questionLower qe st =
     (specTriggered questionLower st \<and> nonEmptyResult (runStage w pdfId questionLower qe st))"

section \<open>Example inputs\<close>

text \<open>Three chunks of 600, 1800 and 100 characters that contain three, one and two of the
  keywords \<open>energy\<close>, \<open>electron\<close>, \<open>quantum\<close>.\<close>

definition chunkA :: MongoDocument where
  "chunkA = \<lparr>doc_text = Some (''energy electron quantum '' @ replicate 576 CHR ''x''),
     doc_pageContent = None, doc_content = None, doc_source = None, doc_fileName = None,
     doc_pageNumber = None, doc_fileId = Some ''physics'', doc_score = None, doc_embedding = None\<rparr>"

definition chunkB :: MongoDocument where
  "chunkB = \<lparr>doc_text = Some (''electron '' @ replicate 1791 CHR ''y''),
     doc_pageContent = None, doc_content = None, doc_source = None, doc_fileName = None,
     doc_pageNumber = None, doc_fileId = Some ''physics'', doc_score = None, doc_embedding = None\<rparr>"

definition chunkC :: MongoDocument where
  "chunkC = \<lparr>doc_text = Some (''energy quantum '' @ replicate 85 CHR ''z''),
     doc_pageContent = None, doc_content = None, doc_source = None, doc_fileName = None,
     doc_pageNumber = None, doc_fileId = Some ''physics'', doc_score = None, doc_embedding = None\<rparr>"

text \<open>
  A collection that holds one chunk of the file \<open>physics\<close> and has no vector index: every
  vector search finds nothing. \<open>compose\<close> answers with the context.
\<close>

definition photonChunk :: MongoDocument where
  "photonChunk = \<lparr>doc_text = Some ''The photon scatters off the electron.'',
     doc_pageContent = None, doc_content = None, doc_source = None,
     doc_fileName = Some ''physics.pdf'', doc_pageNumber = Some 1,
     doc_fileId = Some ''physics'', doc_score = None, doc_embedding = Some [1, 0]\<rparr>"

definition physicsStore :: world where
  "physicsStore =
     \<lparr>connect = Inr (),
      countDocuments = (\<lambda>q. Inr (if q = FileIdEq ''physics'' then 1 else 0)),
      embedQuery = (\<lambda>t. Inr [1 / 2, 1 / 4]),
      aggregate = (\<lambda>p. if p = samplePipeline ''physics'' then Inr [photonChunk] else Inr []),
      findOne = (\<lambda>q. Inr (Some photonChunk)),
      findLimit = (\<lambda>q n. if q = FileIdEq ''physics'' then Inr [photonChunk] else Inr []),
      compose = (\<lambda>question context docs docCount. context)\<rparr>"

text \<open>The same collection while the embedding service refuses every call.\<close>

definition embeddingDown :: world where
  "embeddingDown = physicsStore\<lparr>embedQuery := (\<lambda>t. Inl (Error ''quota exceeded''))\<rparr>"

text \<open>
  A collection in which the index \<open>vector_index\<close> finds nothing and the index \<open>default\<close>
  exists: its unfiltered search returns two chunks of a cookery book, with the scores 0.3
  and 0.2, projected to their text and score.
\<close>

definition eggChunk :: MongoDocument where
  "eggChunk = \<lparr>doc_text = Some ''Whisk the eggs.'',
     doc_pageContent = None, doc_content = None, doc_source = None, doc_fileName = None,
     doc_pageNumber = None, doc_fileId = None, doc_score = Some (3 / 10), doc_embedding = None\<rparr>"

definition flourChunk :: MongoDocument where
  "flourChunk = \<lparr>doc_text = Some ''Fold in the flour.'',
     doc_pageContent = None, doc_content = None, doc_source = None, doc_fileName = None,
     doc_pageNumber = None, doc_fileId = None, doc_score = Some (2 / 10), doc_embedding = None\<rparr>"

definition strayIndexStore :: world where
  "strayIndexStore =
     physicsStore\<lparr>aggregate :=
       (\<lambda>p. if p = altPipeline ''default'' [1 / 2, 1 / 4] then Inr [eggChunk, flourChunk] else Inr [])\<rparr>"

text \<open>A request with one user message, for the file \<open>physics\<close>.\<close>

definition ask :: "string \<Rightarrow> requestBody" where
  "ask question =
     \<lparr>body_messages = [\<lparr>msg_role = User, msg_content = question\<rparr>], body_pdfId = ''physics''\<rparr>"

text \<open>The question of the third end-to-end scenario.\<close>

definition recipeQuestion :: string where
  "recipeQuestion = ''what's your favorite recipe''"

text \<open>A collection whose index \<open>vector_index\<close> finds one chunk with the score 0.9.\<close>

definition scoredChunk :: MongoDocument where
  "scoredChunk = \<lparr>doc_text = Some ''The photon scatters off the electron.'',
     doc_pageContent = None, doc_content = None, doc_source = None,
     doc_fileName = Some ''physics.pdf'', doc_pageNumber = Some 1,
     doc_fileId = Some ''physics'', doc_score = Some (9 / 10), doc_embedding = None\<rparr>"

definition indexedStore :: world where
  "indexedStore =
     physicsStore\<lparr>aggregate :=
       (\<lambda>p. if p = vectorSearchPipeline ''physics'' [1 / 2, 1 / 4] then Inr [scoredChunk]
            else if p = samplePipeline ''physics'' then Inr [photonChunk] else Inr [])\<rparr>"

text \<open>
  A collection with two chunks of the file \<open>physics\<close>, both longer than 200 characters and
  without a structural marker; the first one matches the overview query. No vector index
  finds anything.
\<close>

definition introChunk :: MongoDocument where
  "introChunk = \<lparr>doc_text = Some (''This book covers the photon and the electron. '' @ replicate 200 CHR ''z''),
     doc_pageContent = None, doc_content = None, doc_source = None,
     doc_fileName = Some ''physics.pdf'', doc_pageNumber = Some 1,
     doc_fileId = Some ''physics'', doc_score = None, doc_embedding = None\<rparr>"

definition bodyChunk :: MongoDocument where
  "bodyChunk = \<lparr>doc_text = Some (''The photon scatters off the electron. '' @ replicate 200 CHR ''z''),
     doc_pageContent = None, doc_content = None, doc_source = None,
     doc_fileName = Some ''physics.pdf'', doc_pageNumber = Some 2,
     doc_fileId = Some ''physics'', doc_score = None, doc_embedding = None\<rparr>"

definition overviewStore :: world where
  "overviewStore =
     \<lparr>connect = Inr (),
      countDocuments = (\<lambda>q. Inr (if q = FileIdEq ''physics'' then 2 else 0)),
      embedQuery = (\<lambda>t. Inr [1 / 2, 1 / 4]),
      aggregate = (\<lambda>p. if p = samplePipeline ''physics'' then Inr [bodyChunk, introChunk] else Inr []),
      findOne = (\<lambda>q. Inr (Some introChunk)),
      findLimit = (\<lambda>q n. if q = FileIdEq ''physics'' then Inr [introChunk, bodyChunk]
                         else if q = overviewQuery ''physics'' then Inr [introChunk] else Inr []),
      compose = (\<lambda>question context docs docCount. context)\<rparr>"

text \<open>A question that is a listing request and also asks for details of the pdf.\<close>

definition listingQuestion :: string where
  "listingQuestion = ''list chapter details of pdf''"

text \<open>An embedding service that always answers, and a chunk of the file \<open>f\<close> as the upload
  route builds it.\<close>

definition lengthEmbeddings :: "string \<Rightarrow> error + vector" where
  "lengthEmbeddings t = Inr [of_nat (length t)]"

definition pageDoc :: "string \<Rightarrow> string \<Rightarrow> Document" where
  "pageDoc f t =
     \<lparr>pageContent = t,
      metadata = \<lparr>md_fileId = Some f, md_fileName = Some ''upload.pdf'', md_source = None,
                  md_pageNumber = None\<rparr>\<rparr>"

section \<open>Facts about strings and sorting\<close>

lemma startsWith_iff: "startsWith s t \<longleftrightarrow> (\<exists>b. s = t @ b)"
  unfolding startsWith_def by (metis append_eq_conv_conj append_take_drop_id)

lemma includesStr_iff: "includesStr s t \<longleftrightarrow> (\<exists>a b. s = a @ t @ b)"
proof (induction s)
  case Nil
  then show ?case by auto
next
  case (Cons c s)
  show ?case
  proof
    assume "includesStr (c # s) t"
    then consider "startsWith (c # s) t" | "includesStr s t" by auto
    then show "\<exists>a b. c # s = a @ t @ b"
    proof cases
      case 1
      then obtain b where "c # s = [] @ t @ b" using startsWith_iff by auto
      then show ?thesis by blast
    next
      case 2
      then obtain a b where "s = a @ t @ b" using Cons.IH by blast
      then have "c # s = (c # a) @ t @ b" by simp
      then show ?thesis by blast
    qed
  next
    assume "\<exists>a b. c # s = a @ t @ b"
    then obtain a b where ab: "c # s = a @ t @ b" by blast
    show "includesStr (c # s) t"
    proof (cases a)
      case Nil
      then have "startsWith (c # s) t" using ab startsWith_iff by auto
      then show ?thesis by simp
    next
      case (Cons x a')
      then have "s = a' @ t @ b" using ab by simp
      then show ?thesis using Cons.IH by auto
    qed
  qed
qed

lemma includesStr_chars: "includesStr s t \<Longrightarrow> set t \<subseteq> set s"
  by (auto simp: includesStr_iff)

lemma includesStr_mid: "includesStr (a @ t @ b) t"
  using includesStr_iff by blast

lemma toLowerCase_append: "toLowerCase (a @ b) = toLowerCase a @ toLowerCase b"
  by (simp add: toLowerCase_def)

lemma toLowerCase_replicate: "toLowerCase (replicate n c) = replicate n (toLowerChar c)"
  by (simp add: toLowerCase_def)

lemma lowerA: "toLowerCase (textOrEmpty chunkA) = ''energy electron quantum '' @ replicate 576 CHR ''x''"
  unfolding chunkA_def textOrEmpty_def 
  by (simp add: toLowerCase_append toLowerCase_replicate) (simp add: toLowerCase_def toLowerChar_def)

lemma matchesA: "keywordMatches [''energy'', ''electron'', ''quantum''] chunkA = 3"
proof -
  let ?r = "replicate 576 CHR ''x''"
  have 1: "includesStr (''energy electron quantum '' @ ?r) ''energy''"
    using includesStr_mid[of "[]" "''energy''" "'' electron quantum '' @ ?r"] by simp
  have 2: "includesStr (''energy electron quantum '' @ ?r) ''electron''"
    using includesStr_mid[of "''energy ''" "''electron''" "'' quantum '' @ ?r"] by simp
  have 3: "includesStr (''energy electron quantum '' @ ?r) ''quantum''"
    using includesStr_mid[of "''energy electron ''" "''quantum''" "'' '' @ ?r"] by simp
  show ?thesis unfolding keywordMatches_def lowerA using 1 2 3 by simp
qed

lemma lowerB: "toLowerCase (textOrEmpty chunkB) = ''electron '' @ replicate 1791 CHR ''y''"
  unfolding chunkB_def textOrEmpty_def
  by (simp add: toLowerCase_append toLowerCase_replicate) (simp add: toLowerCase_def toLowerChar_def)

lemma lowerC: "toLowerCase (textOrEmpty chunkC) = ''energy quantum '' @ replicate 85 CHR ''z''"
  unfolding chunkC_def textOrEmpty_def
  by (simp add: toLowerCase_append toLowerCase_replicate) (simp add: toLowerCase_def toLowerChar_def)

lemma matchesB: "keywordMatches [''energy'', ''electron'', ''quantum''] chunkB = 1"
proof -
  let ?t = "''electron '' @ replicate 1791 CHR ''y''"
  have 1: "\<not> includesStr ?t ''energy''"
  proof
    assume "includesStr ?t ''energy''"
    from includesStr_chars[OF this] show False by simp
  qed
  have 2: "includesStr ?t ''electron''"
    using includesStr_mid[of "[]" "''electron''" "'' '' @ replicate 1791 CHR ''y''"] by simp
  have 3: "\<not> includesStr ?t ''quantum''"
  proof
    assume "includesStr ?t ''quantum''"
    from includesStr_chars[OF this] show False by simp
  qed
  show ?thesis unfolding keywordMatches_def lowerB using 1 2 3 by simp
qed

lemma matchesC: "keywordMatches [''energy'', ''electron'', ''quantum''] chunkC = 2"
proof -
  let ?t = "''energy quantum '' @ replicate 85 CHR ''z''"
  have 1: "includesStr ?t ''energy''"
    using includesStr_mid[of "[]" "''energy''" "'' quantum '' @ replicate 85 CHR ''z''"] by simp
  have 2: "\<not> includesStr ?t ''electron''"
  proof
    assume "includesStr ?t ''electron''"
    from includesStr_chars[OF this] show False by simp
  qed
  have 3: "includesStr ?t ''quantum''"
    using includesStr_mid[of "''energy ''" "''quantum''" "'' '' @ replicate 85 CHR ''z''"] by simp
  show ?thesis unfolding keywordMatches_def lowerC using 1 2 3 by simp
qed

lemma lengths: "length (textOrEmpty chunkA) = 600" "length (textOrEmpty chunkB) = 1800"
  "length (textOrEmpty chunkC) = 100"
  by (simp_all add: chunkA_def chunkB_def chunkC_def textOrEmpty_def)

lemma no_marker:
  assumes "CHR ''O'' \<notin> set t" "CHR ''b'' \<notin> set t" "CHR ''i'' \<notin> set t" "length t \<ge> 300"
  shows "\<not> (includesStr t ''Oxford Master Series'' \<or> includesStr t ''course books'' \<or>
     includesStr t ''tutorial material'' \<or> length t < 300)"
  using assms includesStr_chars[of t "''Oxford Master Series''"]
    includesStr_chars[of t "''course books''"] includesStr_chars[of t "''tutorial material''"]
  by auto

lemma contentA: "\<not> isOverviewPage chunkA"
  unfolding isOverviewPage_def Let_def
  by (rule no_marker) (simp_all add: chunkA_def textOrEmpty_def)

lemma contentB: "\<not> isOverviewPage chunkB"
  unfolding isOverviewPage_def Let_def
  by (rule no_marker) (simp_all add: chunkB_def textOrEmpty_def)

lemma keywordMatches_le: "keywordMatches kws d \<le> length kws"
  by (simp add: keywordMatches_def)

lemma mset_insertBy: "mset (insertBy cmp x xs) = add_mset x (mset xs)"
  by (induction xs) auto

lemma mset_sortBy: "mset (sortBy cmp xs) = mset xs"
  unfolding sortBy_def by (induction xs) (auto simp: mset_insertBy)

lemma set_insertBy: "set (insertBy cmp x xs) = insert x (set xs)"
  by (induction xs) auto

lemma sorted_insertBy:
  assumes tot: "\<And>a b. R a b \<or> R b a" and tr: "\<And>a b c. R a b \<Longrightarrow> R b c \<Longrightarrow> R a c"
    and cmp: "\<And>a b. cmp a b \<le> 0 \<longleftrightarrow> R a b"
  shows "sorted_wrt R xs \<Longrightarrow> sorted_wrt R (insertBy cmp x xs)"
proof (induction xs)
  case Nil
  then show ?case by simp
next
  case (Cons y ys)
  show ?case
  proof (cases "cmp x y \<le> 0")
    case True
    then have xy: "R x y" using cmp by blast
    have "\<forall>z\<in>set ys. R x z" using Cons.prems xy tr by auto
    then show ?thesis using True Cons.prems xy by auto
  next
    case False
    then have "R y x" using cmp tot by blast
    then show ?thesis using False Cons by (auto simp: set_insertBy)
  qed
qed

lemma sorted_sortBy:
  assumes tot: "\<And>a b. R a b \<or> R b a" and tr: "\<And>a b c. R a b \<Longrightarrow> R b c \<Longrightarrow> R a c"
    and cmp: "\<And>a b. cmp a b \<le> 0 \<longleftrightarrow> R a b"
  shows "sorted_wrt R (sortBy cmp xs)"
  unfolding sortBy_def
  by (induction xs) (auto intro: sorted_insertBy[of R cmp, OF tot tr cmp])

lemma sorted_keyword: "sorted_wrt (rankedBefore kws) (sortBy (keywordCompare kws) xs)"
proof (rule sorted_sortBy)
  show "rankedBefore kws a b \<or> rankedBefore kws b a" for a b
    unfolding rankedBefore_def by linarith
  show "rankedBefore kws a b \<Longrightarrow> rankedBefore kws b c \<Longrightarrow> rankedBefore kws a c" for a b c
    unfolding rankedBefore_def by linarith
  show "keywordCompare kws a b \<le> 0 \<longleftrightarrow> rankedBefore kws a b" for a b
    unfolding rankedBefore_def keywordCompare_def by auto
qed

section \<open>Facts about sequencing and the calls of stage 0\<close>

lemma bind_Inl: "bind (Inl e, tr) f = (Inl e, tr)"
  by (simp add: bind_def)

lemma bind_Inr: "bind (Inr x, tr) f = (fst (f x), tr @ snd (f x))"
  by (simp add: bind_def split: prod.splits)

lemma bind_ret: "bind (ret x) f = f x"
  by (simp add: bind_def ret_def split: prod.splits)

lemma bind_request_Inr: "bind (request ph c (Inr x)) f = (fst (f x), (ph, c) # snd (f x))"
  by (simp add: request_def bind_Inr)

lemma bind_request_Inl: "bind (request ph c (Inl e)) f = (Inl e, [(ph, c)])"
  by (simp add: request_def bind_Inl)

lemma catch_Inl: "catch (Inl e, tr) h = (fst (h e), tr @ snd (h e))"
  by (simp add: catch_def split: prod.splits)

lemma catch_Inr: "catch (Inr x, tr) h = (Inr x, tr)"
  by (simp add: catch_def)

lemmas io_simps = bind_Inl bind_Inr bind_ret bind_request_Inr bind_request_Inl catch_Inl catch_Inr

lemma tryAlternativeIndexes_shape:
  "\<exists>docs tr. tryAlternativeIndexes w qe names = (Inr docs, tr) \<and> list_all (\<lambda>e. fst e = Stage0) tr"
proof (induction names)
  case Nil
  then show ?case by (simp add: ret_def)
next
  case (Cons i names)
  then obtain docs tr where IH: "tryAlternativeIndexes w qe names = (Inr docs, tr)"
    "list_all (\<lambda>e. fst e = Stage0) tr" by blast
  show ?case
  proof (cases "aggregate w (altPipeline i qe)")
    case (Inl e)
    then show ?thesis using IH by (simp add: io_simps ret_def request_def catch_def)
  next
    case (Inr altDocs)
    then show ?thesis using IH by (simp add: io_simps ret_def request_def catch_def)
  qed
qed

lemma vectorSearch_shape:
  "\<exists>docs mid. vectorSearch w pdfId qe =
      (Inr docs, (Stage0, Aggregate (vectorSearchPipeline pdfId qe)) # mid) \<and>
     list_all (\<lambda>e. fst e = Stage0) mid"
proof (cases "aggregate w (vectorSearchPipeline pdfId qe)")
  case (Inl e)
  then show ?thesis by (simp add: vectorSearch_def io_simps ret_def request_def catch_def)
next
  case (Inr docs)
  show ?thesis
  proof (cases "docs = []")
    case False
    then show ?thesis using Inr by (simp add: vectorSearch_def io_simps ret_def request_def catch_def)
  next
    case True
    obtain d tr where alt: "tryAlternativeIndexes w qe alternativeIndexes = (Inr d, tr)"
      "list_all (\<lambda>e. fst e = Stage0) tr" using tryAlternativeIndexes_shape by blast
    show ?thesis
    proof (cases "findOne w MatchAll")
      case (Inl e)
      then show ?thesis using Inr True
        by (simp add: vectorSearch_def io_simps ret_def request_def catch_def)
    next
      case (Inr s)
      then show ?thesis using \<open>aggregate w (vectorSearchPipeline pdfId qe) = Inr docs\<close> True alt
        by (simp add: vectorSearch_def io_simps ret_def request_def catch_def)
    qed
  qed
qed

lemma applyScoreThreshold_floor:
  "list_all (\<lambda>d. scoreOrZero d \<ge> scoreThreshold) (applyScoreThreshold docs)"
  by (simp add: applyScoreThreshold_def Let_def list_all_iff)

lemma stray_vectorSearch:
  "vectorSearch strayIndexStore ''physics'' [1 / 2, 1 / 4] =
     (Inr [eggChunk, flourChunk],
      [(Stage0, Aggregate (vectorSearchPipeline ''physics'' [1 / 2, 1 / 4])),
       (Stage0, FindOne MatchAll),
       (Stage0, Aggregate (altPipeline ''default'' [1 / 2, 1 / 4]))])"
  by (simp add: vectorSearch_def strayIndexStore_def physicsStore_def alternativeIndexes_def
      vectorSearchPipeline_def altPipeline_def io_simps ret_def request_def catch_def)

lemma stray_fields:
  "connect strayIndexStore = Inr ()"
  "countDocuments strayIndexStore (FileIdEq ''physics'') = Inr 1"
  "embedQuery strayIndexStore question = Inr [1 / 2, 1 / 4]"
  "compose strayIndexStore question context docs n = context"
  by (simp_all add: strayIndexStore_def physicsStore_def)

section \<open>The handler unfolded\<close>

lemma bind_eq_Inr:
  "bind m f = (Inr y, t) \<longleftrightarrow> (\<exists>x tr tr'. m = (Inr x, tr) \<and> f x = (Inr y, tr') \<and> t = tr @ tr')"
  by (cases m; cases "fst m") (auto simp: bind_def split: prod.splits sum.splits)

lemma fst_bind_Inr:
  "fst (bind m f) = Inr y \<Longrightarrow>
     \<exists>x tr tr'. m = (Inr x, tr) \<and> f x = (Inr y, tr') \<and> bind m f = (Inr y, tr @ tr')"
  using bind_eq_Inr[of m f y "snd (bind m f)"] by (metis prod.collapse)

lemma relevanceGate_rejects:
  "fst (relevanceGate w pdfId ql) = Inr True \<Longrightarrow>
     relevanceGate w pdfId ql = (Inr True, [(Gate, Find (FileIdEq pdfId) 3)])"
  by (cases "findLimit w (FileIdEq pdfId) 3")
     (auto simp: relevanceGate_def io_simps ret_def request_def split: if_splits)

lemma retrieve_Irrelevant:
  assumes "fst (retrieve w pdfId question qe) = Inr Irrelevant"
  shows "\<exists>mid. snd (retrieve w pdfId question qe) =
            (Stage0, Aggregate (vectorSearchPipeline pdfId qe)) # mid @ [(Gate, Find (FileIdEq pdfId) 3)] \<and>
          list_all (\<lambda>e. fst e = Stage0) mid"
proof -
  obtain docs0 mid where vs: "vectorSearch w pdfId qe =
      (Inr docs0, (Stage0, Aggregate (vectorSearchPipeline pdfId qe)) # mid)"
    and mid: "list_all (\<lambda>e. fst e = Stage0) mid"
    using vectorSearch_shape by blast
  have empty: "docs0 = []"
  proof (rule ccontr)
    assume "docs0 \<noteq> []"
    then have "fst (retrieve w pdfId question qe) = Inr (Retrieved docs0)"
      by (simp add: retrieve_def vs io_simps ret_def)
    then show False using assms by simp
  qed
  let ?rest = "\<lambda>rejected. if rejected then ret Irrelevant
       else bind (fallbackSearch w pdfId (toLowerCase question))
              (\<lambda>docs1. if docs1 \<noteq> [] then ret (Retrieved docs1)
                 else bind (diverseSample w pdfId) (\<lambda>docs2. ret (Retrieved docs2)))"
  have r: "retrieve w pdfId question qe =
      (fst (bind (relevanceGate w pdfId (toLowerCase question)) ?rest),
       ((Stage0, Aggregate (vectorSearchPipeline pdfId qe)) # mid) @
         snd (bind (relevanceGate w pdfId (toLowerCase question)) ?rest))"
    by (simp add: retrieve_def vs empty io_simps)
  then have "fst (bind (relevanceGate w pdfId (toLowerCase question)) ?rest) = Inr Irrelevant"
    using assms by simp
  from fst_bind_Inr[OF this] obtain rejected tr tr' where
    g: "relevanceGate w pdfId (toLowerCase question) = (Inr rejected, tr)"
    and k: "?rest rejected = (Inr Irrelevant, tr')"
    and b: "bind (relevanceGate w pdfId (toLowerCase question)) ?rest = (Inr Irrelevant, tr @ tr')"
    by blast
  have rej: "rejected"
  proof (rule ccontr)
    assume n: "\<not> rejected"
    with k have "fst (bind (fallbackSearch w pdfId (toLowerCase question))
              (\<lambda>docs1. if docs1 \<noteq> [] then ret (Retrieved docs1)
                 else bind (diverseSample w pdfId) (\<lambda>docs2. ret (Retrieved docs2)))) = Inr Irrelevant"
      by simp
    from fst_bind_Inr[OF this] obtain docs1 t1 t2 where
      "(if docs1 \<noteq> [] then ret (Retrieved docs1)
                 else bind (diverseSample w pdfId) (\<lambda>docs2. ret (Retrieved docs2))) = (Inr Irrelevant, t2)"
      by blast
    then show False
      by (cases "aggregate w (samplePipeline pdfId)")
         (auto simp: ret_def diverseSample_def io_simps split: if_splits)
  qed
  then have "tr = [(Gate, Find (FileIdEq pdfId) 3)]"
    using relevanceGate_rejects[of w pdfId "toLowerCase question"] g by simp
  moreover have "tr' = []" using k rej by (simp add: ret_def)
  ultimately show ?thesis using r b mid by auto
qed

lemma answers_differ: "noDocumentsAnswer \<noteq> unrelatedAnswer" "noContentAnswer \<noteq> unrelatedAnswer"
  by (simp_all add: noDocumentsAnswer_def unrelatedAnswer_def noContentAnswer_def)

lemma respond_not_unrelated: "respond w question docs n \<noteq> AnswerResponse unrelatedAnswer []"
proof (cases "contextOf docs = []")
  case True
  then show ?thesis using answers_differ by (simp add: respond_def)
next
  case False
  then have "docs \<noteq> []" by (auto simp: contextOf_def)
  then show ?thesis using False by (simp add: respond_def sourcesOf_def)
qed

lemma answerQuestion_unfold:
  "answerQuestion w pdfId q =
     (case connect w of
        Inl e \<Rightarrow> (Inl e, [(Setup, Connect)])
      | Inr u \<Rightarrow>
         (case countDocuments w (FileIdEq pdfId) of
            Inl e \<Rightarrow> (Inl e, [(Setup, Connect), (Setup, CountDocuments (FileIdEq pdfId))])
          | Inr n \<Rightarrow>
              if n = 0
              then (Inr (AnswerResponse noDocumentsAnswer []),
                    [(Setup, Connect), (Setup, CountDocuments (FileIdEq pdfId)), (Teardown, Close)])
              else
               (case embedQuery w q of
                  Inl e \<Rightarrow> (Inl e, [(Setup, Connect), (Setup, CountDocuments (FileIdEq pdfId)),
                                     (Setup, EmbedQuery q)])
                | Inr qe \<Rightarrow>
                   (case retrieve w pdfId q qe of
                      (Inl e, tr) \<Rightarrow>
                        (Inl e, [(Setup, Connect), (Setup, CountDocuments (FileIdEq pdfId)),
                                 (Setup, EmbedQuery q)] @ tr)
                    | (Inr Irrelevant, tr) \<Rightarrow>
                        (Inr (AnswerResponse unrelatedAnswer []),
                         [(Setup, Connect), (Setup, CountDocuments (FileIdEq pdfId)),
                          (Setup, EmbedQuery q)] @ tr @ [(Teardown, Close)])
                    | (Inr (Retrieved docs), tr) \<Rightarrow>
                        (Inr (respond w q docs n),
                         [(Setup, Connect), (Setup, CountDocuments (FileIdEq pdfId)),
                          (Setup, EmbedQuery q)] @ tr @ [(Teardown, Close)])))))"
  by (simp add: answerQuestion_def io_simps ret_def
      split: sum.splits prod.splits retrieval.splits)

lemma POST_unfold:
  "POST w body =
     (if body_messages body = [] then (ErrorResponse ''No messages provided'' 400, [])
      else if msg_content (last (body_messages body)) = []
      then (ErrorResponse ''Question is required'' 400, [])
      else (case answerQuestion w (body_pdfId body) (msg_content (last (body_messages body))) of
              (Inl e, tr) \<Rightarrow> (ErrorResponse ''Internal Server Error'' 500, tr)
            | (Inr r, tr) \<Rightarrow> (r, tr)))"
  by (simp add: POST_def Let_def split: list.splits)

section \<open>The example requests evaluated\<close>

lemma physics_fields:
  "connect physicsStore = Inr ()"
  "countDocuments physicsStore (FileIdEq ''physics'') = Inr 1"
  "embedQuery physicsStore question = Inr [1 / 2, 1 / 4]"
  "findLimit physicsStore (FileIdEq ''physics'') 3 = Inr [photonChunk]"
  "aggregate physicsStore (samplePipeline ''physics'') = Inr [photonChunk]"
  "compose physicsStore question context docs n = context"
  by (simp_all add: physicsStore_def)

lemma physics_vectorSearch:
  "vectorSearch physicsStore ''physics'' [1 / 2, 1 / 4] =
     (Inr [],
      [(Stage0, Aggregate (vectorSearchPipeline ''physics'' [1 / 2, 1 / 4])),
       (Stage0, FindOne MatchAll),
       (Stage0, Aggregate (altPipeline ''default'' [1 / 2, 1 / 4])),
       (Stage0, Aggregate (altPipeline ''vector_search_index'' [1 / 2, 1 / 4])),
       (Stage0, Aggregate (altPipeline ''embeddings_index'' [1 / 2, 1 / 4]))])"
  by (simp add: vectorSearch_def physicsStore_def alternativeIndexes_def samplePipeline_def
      vectorSearchPipeline_def altPipeline_def io_simps ret_def request_def catch_def)

lemmas string_eval = toLowerCase_def toLowerChar_def startsWith_def regexTest_def
  isSpaceChar_def unrelatedPatterns_def

lemma recipe_lower: "toLowerCase recipeQuestion = recipeQuestion"
  by (simp add: recipeQuestion_def toLowerCase_def toLowerChar_def)

lemma recipe_not_general: "\<not> isGeneralPdfQuestion recipeQuestion"
  by (simp add: recipeQuestion_def isGeneralPdfQuestion_def startsWith_def)

lemma recipe_unrelated: "isObviouslyUnrelated recipeQuestion"
proof -
  have "regexTest [[Lit ''food''], [Lit ''recipe''], [Lit ''cooking'']] recipeQuestion"
    by (simp add: recipeQuestion_def regexTest_def startsWith_def)
  then show ?thesis by (simp add: isObviouslyUnrelated_def unrelatedPatterns_def)
qed

lemma recipe_gate:
  "relevanceGate physicsStore ''physics'' recipeQuestion = (Inr True, [(Gate, Find (FileIdEq ''physics'') 3)])"
  by (simp add: relevanceGate_def recipe_not_general recipe_unrelated questionRejected_def
      physics_fields io_simps ret_def)

lemma recipe_POST:
  "POST physicsStore (ask recipeQuestion) =
     (AnswerResponse unrelatedAnswer [],
      [(Setup, Connect), (Setup, CountDocuments (FileIdEq ''physics'')),
       (Setup, EmbedQuery recipeQuestion),
       (Stage0, Aggregate (vectorSearchPipeline ''physics'' [1 / 2, 1 / 4])),
       (Stage0, FindOne MatchAll),
       (Stage0, Aggregate (altPipeline ''default'' [1 / 2, 1 / 4])),
       (Stage0, Aggregate (altPipeline ''vector_search_index'' [1 / 2, 1 / 4])),
       (Stage0, Aggregate (altPipeline ''embeddings_index'' [1 / 2, 1 / 4])),
       (Gate, Find (FileIdEq ''physics'') 3), (Teardown, Close)])"
proof -
  have q: "recipeQuestion \<noteq> []" by (simp add: recipeQuestion_def)
  have "retrieve physicsStore ''physics'' recipeQuestion [1 / 2, 1 / 4] =
     (Inr Irrelevant,
      [(Stage0, Aggregate (vectorSearchPipeline ''physics'' [1 / 2, 1 / 4])),
       (Stage0, FindOne MatchAll),
       (Stage0, Aggregate (altPipeline ''default'' [1 / 2, 1 / 4])),
       (Stage0, Aggregate (altPipeline ''vector_search_index'' [1 / 2, 1 / 4])),
       (Stage0, Aggregate (altPipeline ''embeddings_index'' [1 / 2, 1 / 4])),
       (Gate, Find (FileIdEq ''physics'') 3)])"
    by (simp add: retrieve_def physics_vectorSearch recipe_lower recipe_gate io_simps ret_def)
  then show ?thesis using q
    by (simp add: POST_unfold answerQuestion_unfold ask_def physics_fields)
qed

lemma why_terms: "questionTerms ''why'' = []" "meaningfulKeywords ''why'' = []"
  by (simp_all add: questionTerms_def meaningfulKeywords_def)

lemma why_lower: "toLowerCase ''why'' = ''why''"
  by (simp add: toLowerCase_def toLowerChar_def)

lemma why_related: "\<not> isObviouslyUnrelated ''why''"
  by (simp add: isObviouslyUnrelated_def unrelatedPatterns_def regexTest_def startsWith_def)

lemma why_shape: "\<not> isGeneralPdfQuestion ''why''" "\<not> isListingRequest ''why''"
  "\<not> isOverviewRequest ''why''"
  by (simp_all add: isGeneralPdfQuestion_def isListingRequest_def isOverviewRequest_def startsWith_def)

lemma buy_facts: "toLowerCase ''buy'' = ''buy''" "questionTerms ''buy'' = []"
  "isObviouslyUnrelated ''buy''" "\<not> isGeneralPdfQuestion ''buy''"
  by (simp_all add: toLowerCase_def toLowerChar_def questionTerms_def isObviouslyUnrelated_def
      unrelatedPatterns_def regexTest_def startsWith_def isGeneralPdfQuestion_def)

section \<open>The cascade unfolded, and the calls of each stage\<close>

lemma retrieve_unfold:
  "retrieve w pdfId question qe =
     (case vectorSearch w pdfId qe of
        (Inl e, tr0) \<Rightarrow> (Inl e, tr0)
      | (Inr docs0, tr0) \<Rightarrow>
          if docs0 \<noteq> [] then (Inr (Retrieved docs0), tr0)
          else (case relevanceGate w pdfId (toLowerCase question) of
                  (Inl e, trg) \<Rightarrow> (Inl e, tr0 @ trg)
                | (Inr rejected, trg) \<Rightarrow>
                    if rejected then (Inr Irrelevant, tr0 @ trg)
                    else (case fallbackSearch w pdfId (toLowerCase question) of
                            (Inl e, tr1) \<Rightarrow> (Inl e, tr0 @ trg @ tr1)
                          | (Inr docs1, tr1) \<Rightarrow>
                              if docs1 \<noteq> [] then (Inr (Retrieved docs1), tr0 @ trg @ tr1)
                              else (case aggregate w (samplePipeline pdfId) of
                                      Inl e \<Rightarrow>
                                        (Inl e, tr0 @ trg @ tr1 @
                                           [(Stage4, Aggregate (samplePipeline pdfId))])
                                    | Inr docs2 \<Rightarrow>
                                        (Inr (Retrieved docs2), tr0 @ trg @ tr1 @
                                           [(Stage4, Aggregate (samplePipeline pdfId))])))))"
  by (simp add: retrieve_def diverseSample_def io_simps ret_def split: sum.splits prod.splits)

lemma relevanceGate_events: "list_all (\<lambda>e. fst e = Gate) (snd (relevanceGate w pdfId ql))"
  by (cases "findLimit w (FileIdEq pdfId) 3")
     (simp_all add: relevanceGate_def io_simps ret_def)

lemma structureSearch_events: "list_all (\<lambda>e. fst e = Stage1) (snd (structureSearch w pdfId))"
  by (cases "findLimit w (structureQuery pdfId) 10")
     (simp_all add: structureSearch_def io_simps ret_def request_def)

lemma overviewSearch_events: "list_all (\<lambda>e. fst e = Stage2) (snd (overviewSearch w pdfId))"
  by (cases "findLimit w (overviewQuery pdfId) 10")
     (simp_all add: overviewSearch_def io_simps ret_def)

lemma keywordSearch_events: "list_all (\<lambda>e. fst e = Stage3) (snd (keywordSearch w pdfId ql))"
proof (cases "meaningfulKeywords ql = []")
  case True
  then show ?thesis by (simp add: keywordSearch_def ret_def)
next
  case False
  show ?thesis
  proof (cases "findLimit w (keywordQuery pdfId (meaningfulKeywords ql)) 20")
    case (Inl e)
    then show ?thesis using False by (simp add: keywordSearch_def io_simps)
  next
    case (Inr allDocs)
    then show ?thesis using False
      by (cases "findLimit w (specificQuery pdfId (meaningfulKeywords ql)) 8")
         (simp_all add: keywordSearch_def Let_def io_simps ret_def)
  qed
qed

section \<open>Positions of the calls\<close>

lemma events_le:
  "list_all (\<lambda>e. fst e = ph) tr \<Longrightarrow> phaseIndex ph \<le> n \<Longrightarrow>
     list_all (\<lambda>e. phaseIndex (fst e) \<le> n) tr"
  by (auto simp: list_all_iff)

lemma events_le_mono:
  "list_all (\<lambda>e. phaseIndex (fst e) \<le> m) tr \<Longrightarrow> m \<le> n \<Longrightarrow>
     list_all (\<lambda>e. phaseIndex (fst e) \<le> n) tr"
  by (induction tr) auto

section \<open>More example requests evaluated\<close>

lemma indexed_vectorSearch:
  "vectorSearch indexedStore ''physics'' [1 / 2, 1 / 4] =
     (Inr [scoredChunk], [(Stage0, Aggregate (vectorSearchPipeline ''physics'' [1 / 2, 1 / 4]))])"
  by (simp add: vectorSearch_def indexedStore_def physicsStore_def io_simps ret_def request_def
      catch_def applyScoreThreshold_def scoreOrZero_def scoredChunk_def scoreThreshold_def)

lemma indexed_fields:
  "connect indexedStore = Inr ()"
  "countDocuments indexedStore (FileIdEq ''physics'') = Inr 1"
  "embedQuery indexedStore question = Inr [1 / 2, 1 / 4]"
  by (simp_all add: indexedStore_def physicsStore_def)

lemma why_retrieve:
  "retrieve physicsStore ''physics'' ''why'' [1 / 2, 1 / 4] =
     (Inr (Retrieved [photonChunk]),
      [(Stage0, Aggregate (vectorSearchPipeline ''physics'' [1 / 2, 1 / 4])),
       (Stage0, FindOne MatchAll),
       (Stage0, Aggregate (altPipeline ''default'' [1 / 2, 1 / 4])),
       (Stage0, Aggregate (altPipeline ''vector_search_index'' [1 / 2, 1 / 4])),
       (Stage0, Aggregate (altPipeline ''embeddings_index'' [1 / 2, 1 / 4])),
       (Gate, Find (FileIdEq ''physics'') 3),
       (Stage4, Aggregate (samplePipeline ''physics''))])"
proof -
  have g: "relevanceGate physicsStore ''physics'' ''why'' = (Inr False, [(Gate, Find (FileIdEq ''physics'') 3)])"
    by (simp add: relevanceGate_def why_shape why_terms why_related questionRejected_def
        physics_fields io_simps ret_def)
  have f: "fallbackSearch physicsStore ''physics'' ''why'' = (Inr [], [])"
    by (simp add: fallbackSearch_def keywordSearch_def why_shape why_terms ret_def)
  show ?thesis
    by (simp add: retrieve_unfold physics_vectorSearch why_lower g f physics_fields)
qed

lemma why_yields:
  "filter (stageYields physicsStore ''physics'' ''why'' [1 / 2, 1 / 4]) cascadeOrder = [Stage4]"
  by (simp add: cascadeOrder_def stageYields_def nonEmptyResult_def physics_vectorSearch why_shape
      keywordSearch_def why_terms ret_def diverseSample_def request_def physics_fields)

lemma listing_shape:
  "toLowerCase listingQuestion = listingQuestion"
  "isListingRequest listingQuestion" "isOverviewRequest listingQuestion"
  "isGeneralPdfQuestion listingQuestion"
  by (simp_all add: listingQuestion_def toLowerCase_def toLowerChar_def isListingRequest_def
      isOverviewRequest_def isGeneralPdfQuestion_def startsWith_def)

lemma overview_vectorSearch:
  "vectorSearch overviewStore ''physics'' [1 / 2, 1 / 4] =
     (Inr [],
      [(Stage0, Aggregate (vectorSearchPipeline ''physics'' [1 / 2, 1 / 4])),
       (Stage0, FindOne MatchAll),
       (Stage0, Aggregate (altPipeline ''default'' [1 / 2, 1 / 4])),
       (Stage0, Aggregate (altPipeline ''vector_search_index'' [1 / 2, 1 / 4])),
       (Stage0, Aggregate (altPipeline ''embeddings_index'' [1 / 2, 1 / 4]))])"
  by (simp add: vectorSearch_def overviewStore_def alternativeIndexes_def samplePipeline_def
      vectorSearchPipeline_def altPipeline_def io_simps ret_def request_def catch_def)

lemma overview_stages:
  "structureSearch overviewStore ''physics'' =
     (Inr [], [(Stage1, Find (structureQuery ''physics'') 10), (Stage1, Find (headingQuery ''physics'') 10)])"
  "overviewSearch overviewStore ''physics'' = (Inr [introChunk], [(Stage2, Find (overviewQuery ''physics'') 10)])"
  "diverseSample overviewStore ''physics'' =
     (Inr [bodyChunk, introChunk], [(Stage4, Aggregate (samplePipeline ''physics''))])"
  by (simp_all add: structureSearch_def overviewSearch_def diverseSample_def overviewStore_def
      structureQuery_def headingQuery_def overviewQuery_def rankOverviewDocs_def sortBy_def
      io_simps ret_def request_def)

section \<open>Facts about the ingestion\<close>

lemma deleteMany_when_present:
  "(if countByFileId coll f > 0 then deleteMany coll f else coll) = deleteMany coll f"
proof (cases "countByFileId coll f > 0")
  case True
  then show ?thesis by simp
next
  case False
  then have "filter (\<lambda>c. doc_fileId c = Some f) coll = []" by (simp add: countByFileId_def)
  then have "\<forall>c\<in>set coll. doc_fileId c \<noteq> Some f" by (simp add: filter_empty_conv)
  then show ?thesis using False by (simp add: deleteMany_def)
qed

lemma deleteMany_none: "filter (\<lambda>c. doc_fileId c = Some f) (deleteMany coll f) = []"
  by (simp add: deleteMany_def filter_empty_conv)

lemma embedDocuments_total:
  "list_all (\<lambda>t. \<not> isl (embeddings t)) ts \<Longrightarrow>
     \<exists>vs. embedDocuments embeddings ts = Inr vs \<and> length vs = length ts"
proof (induction ts)
  case Nil
  then show ?case by simp
next
  case (Cons t ts)
  then obtain vs where "embedDocuments embeddings ts = Inr vs" "length vs = length ts" by auto
  moreover obtain v where "embeddings t = Inr v" using Cons.prems by (cases "embeddings t") auto
  ultimately show ?case by simp
qed

lemma storedChunk_fileId:
  "length vs = length docs \<Longrightarrow> list_all (\<lambda>d. md_fileId (metadata d) = Some f) docs \<Longrightarrow>
     filter (\<lambda>c. doc_fileId c = Some f) (map2 storedChunk docs vs) = map2 storedChunk docs vs"
proof (induction docs arbitrary: vs)
  case Nil
  then show ?case by simp
next
  case (Cons d docs)
  then obtain v vs' where "vs = v # vs'" by (cases vs) auto
  then show ?case using Cons by (simp add: storedChunk_def)
qed

lemma embedAndStoreDocs_succeeds:
  assumes "list_all (\<lambda>d. \<not> isl (embeddings (pageContent d))) docs"
  shows "\<exists>coll'. embedAndStoreDocs embeddings docs coll = (Inr (), coll')"
proof -
  have "list_all (\<lambda>t. \<not> isl (embeddings t)) (map pageContent docs)"
    using assms by (simp add: list_all_iff)
  from embedDocuments_total[OF this] obtain vs where
    "embedDocuments embeddings (map pageContent docs) = Inr vs" by blast
  then show ?thesis by (simp add: embedAndStoreDocs_def fromDocuments_def Let_def)
qed

section \<open>C1: the ranking of the keyword stage\<close>

text \<open>
  C1, as amended. In the keyword stage the candidates are first reduced to the content
  chunks (no front-matter marker and at least 300 characters) whenever there is one; the
  output is the first eight of a reordering of these that is sorted by descending number of
  matched keywords, ties by the length band [500, 2000] first. For three candidates with
  match counts 3, 1, 2 and lengths 600, 1800, 100, the output is the count-3, the count-2
  and the count-1 chunk only when neither of the two longer chunks is a content chunk;
  otherwise the chunk of 100 characters is dropped before the ranking, and the output is
  the content chunks among the other two, the count-3 chunk before the count-1 chunk.
\<close>

theorem keyword_ranking:
  "(\<exists>ys. mset ys = mset (if list_ex (\<lambda>d. \<not> isOverviewPage d) allDocs
                          then filter (\<lambda>d. \<not> isOverviewPage d) allDocs else allDocs) \<and>
         sorted_wrt (rankedBefore kws) ys \<and>
         rankKeywordDocs kws allDocs = take 8 ys) \<and>
   (keywordMatches kws a = 3 \<and> keywordMatches kws b = 1 \<and> keywordMatches kws c = 2 \<and>
    length (textOrEmpty a) = 600 \<and> length (textOrEmpty b) = 1800 \<and> length (textOrEmpty c) = 100
    \<longrightarrow> rankKeywordDocs kws [a, b, c] =
          (if isOverviewPage a \<and> isOverviewPage b then [a, c, b]
           else filter (\<lambda>d. \<not> isOverviewPage d) [a, b]))"
proof (intro conjI impI)
  let ?content = "filter (\<lambda>d. \<not> isOverviewPage d) allDocs"
  let ?docs = "if ?content \<noteq> [] then ?content else allDocs"
  have ex: "list_ex (\<lambda>d. \<not> isOverviewPage d) allDocs \<longleftrightarrow> ?content \<noteq> []"
    by (auto simp: list_ex_iff filter_empty_conv)
  have "mset (sortBy (keywordCompare kws) ?docs) = mset ?docs"
    by (rule mset_sortBy)
  moreover have "sorted_wrt (rankedBefore kws) (sortBy (keywordCompare kws) ?docs)"
    by (rule sorted_keyword)
  moreover have "rankKeywordDocs kws allDocs = take 8 (sortBy (keywordCompare kws) ?docs)"
    by (simp add: rankKeywordDocs_def Let_def)
  ultimately show "\<exists>ys. mset ys = mset (if list_ex (\<lambda>d. \<not> isOverviewPage d) allDocs
                          then ?content else allDocs) \<and>
         sorted_wrt (rankedBefore kws) ys \<and> rankKeywordDocs kws allDocs = take 8 ys"
    unfolding ex by blast
next
  assume h: "keywordMatches kws a = 3 \<and> keywordMatches kws b = 1 \<and> keywordMatches kws c = 2 \<and>
    length (textOrEmpty a) = 600 \<and> length (textOrEmpty b) = 1800 \<and> length (textOrEmpty c) = 100"
  then have c: "isOverviewPage c" by (simp add: isOverviewPage_def Let_def)
  have ab: "keywordCompare kws a b \<le> 0" and ac: "keywordCompare kws a c \<le> 0"
    and bc: "\<not> keywordCompare kws b c \<le> 0"
    using h by (simp_all add: keywordCompare_def)
  show "rankKeywordDocs kws [a, b, c] =
          (if isOverviewPage a \<and> isOverviewPage b then [a, c, b]
           else filter (\<lambda>d. \<not> isOverviewPage d) [a, b])"
    using c ab ac bc by (simp add: rankKeywordDocs_def sortBy_def)
qed

text \<open>The amended C1 at the three example chunks, for the keywords \<open>energy\<close>, \<open>electron\<close>,
  \<open>quantum\<close>.\<close>

theorem keyword_ranking_witness:
  "keywordMatches [''energy'', ''electron'', ''quantum''] chunkA = 3 \<and>
   keywordMatches [''energy'', ''electron'', ''quantum''] chunkB = 1 \<and>
   keywordMatches [''energy'', ''electron'', ''quantum''] chunkC = 2 \<and>
   length (textOrEmpty chunkA) = 600 \<and> length (textOrEmpty chunkB) = 1800 \<and>
   length (textOrEmpty chunkC) = 100 \<and> \<not> isOverviewPage chunkA \<and> \<not> isOverviewPage chunkB \<and>
   rankKeywordDocs [''energy'', ''electron'', ''quantum''] [chunkA, chunkB, chunkC] = [chunkA, chunkB]"
  using keyword_ranking[of _ "[''energy'', ''electron'', ''quantum'']" chunkA chunkB chunkC]
    matchesA matchesB matchesC lengths contentA contentB
  by simp

text \<open>
  C1 as stated fails. With the two keywords \<open>energy\<close> and \<open>electron\<close> no chunk has a match
  count of 3; and for chunks with match counts 3, 1, 2 and lengths 600, 1800, 100 (three
  keywords) the ranked output is not the count-3, count-2, count-1 order: the count-2 chunk
  is absent.
\<close>

theorem keyword_ranking_counterexample:
  "\<not> (\<exists>d. keywordMatches [''energy'', ''electron''] d = 3) \<and>
   keywordMatches [''energy'', ''electron'', ''quantum''] chunkA = 3 \<and>
   keywordMatches [''energy'', ''electron'', ''quantum''] chunkB = 1 \<and>
   keywordMatches [''energy'', ''electron'', ''quantum''] chunkC = 2 \<and>
   length (textOrEmpty chunkA) = 600 \<and> length (textOrEmpty chunkB) = 1800 \<and>
   length (textOrEmpty chunkC) = 100 \<and>
   rankKeywordDocs [''energy'', ''electron'', ''quantum''] [chunkA, chunkB, chunkC]
     \<noteq> [chunkA, chunkC, chunkB]"
proof -
  have "keywordMatches [''energy'', ''electron''] d \<noteq> 3" for d
    using keywordMatches_le[of "[''energy'', ''electron'']" d] by simp
  moreover have "isOverviewPage chunkC"
    using lengths by (simp add: isOverviewPage_def Let_def)
  then have "rankKeywordDocs [''energy'', ''electron'', ''quantum''] [chunkA, chunkB, chunkC]
     = [chunkA, chunkB]"
    using contentA contentB matchesA matchesB
    by (simp add: rankKeywordDocs_def sortBy_def keywordCompare_def)
  ultimately show ?thesis using matchesA matchesB matchesC lengths by simp
qed

section \<open>C2: the similarity floor\<close>

text \<open>
  C2 fails on the code. The first vector search keeps only chunks with a score of at
  least 0.6 (\<open>applyScoreThreshold_floor\<close>), but the result of an alternative index is
  taken as it is: when \<open>vector_index\<close> finds nothing and the index \<open>default\<close> returns
  chunks with the scores 0.3 and 0.2, stage 0 yields these two chunks.
\<close>

theorem alternative_index_below_floor:
  "fst (vectorSearch strayIndexStore ''physics'' [1 / 2, 1 / 4]) = Inr [eggChunk, flourChunk] \<and>
   scoreOrZero eggChunk = 3 / 10 \<and> scoreOrZero flourChunk = 2 / 10 \<and>
   scoreOrZero eggChunk < scoreThreshold \<and> scoreOrZero flourChunk < scoreThreshold"
  by (simp add: stray_vectorSearch scoreOrZero_def eggChunk_def flourChunk_def scoreThreshold_def)

section \<open>C3: when the relevance check rejects\<close>

text \<open>
  C3, as amended. When a request is answered with the rejection of the relevance check,
  the calls made are, in this order: the connection, the count of the file's chunks, the
  embedding of the question, the vector search of stage 0 (with possibly more calls of
  stage 0), the sample query of the relevance check itself, and the closing of the
  connection. No query of the stages 1 to 4 is made.
\<close>

theorem rejection_after_vector_search:
  assumes "fst (POST w body) = AnswerResponse unrelatedAnswer []"
  shows "\<exists>qe mid. snd (POST w body) =
           [(Setup, Connect), (Setup, CountDocuments (FileIdEq (body_pdfId body))),
            (Setup, EmbedQuery (msg_content (last (body_messages body)))),
            (Stage0, Aggregate (vectorSearchPipeline (body_pdfId body) qe))] @ mid @
           [(Gate, Find (FileIdEq (body_pdfId body)) 3), (Teardown, Close)] \<and>
         list_all (\<lambda>e. fst e = Stage0) mid"
proof -
  let ?q = "msg_content (last (body_messages body))"
  let ?pdf = "body_pdfId body"
  let ?opening = "[(Setup, Connect), (Setup, CountDocuments (FileIdEq ?pdf)), (Setup, EmbedQuery ?q)]"
  from assms have "\<exists>qe. fst (retrieve w ?pdf ?q qe) = Inr Irrelevant \<and>
      snd (POST w body) = ?opening @ snd (retrieve w ?pdf ?q qe) @ [(Teardown, Close)]"
    using answers_differ respond_not_unrelated
    by (auto simp: POST_unfold answerQuestion_unfold
        split: if_splits sum.splits prod.splits retrieval.splits)
       (metis fst_conv snd_conv)
  then obtain qe tr where irr: "fst (retrieve w ?pdf ?q qe) = Inr Irrelevant"
    and tr: "snd (retrieve w ?pdf ?q qe) = tr"
    and post: "snd (POST w body) = ?opening @ tr @ [(Teardown, Close)]" by blast
  from retrieve_Irrelevant[OF irr] tr obtain mid where
    "tr = (Stage0, Aggregate (vectorSearchPipeline ?pdf qe)) # mid @ [(Gate, Find (FileIdEq ?pdf) 3)]"
    "list_all (\<lambda>e. fst e = Stage0) mid" by auto
  then show ?thesis using post by auto
qed

text \<open>The amended C3 at the recipe question on the physics collection.\<close>

theorem rejection_after_vector_search_witness:
  "fst (POST physicsStore (ask recipeQuestion)) = AnswerResponse unrelatedAnswer [] \<and>
   (\<exists>qe mid. snd (POST physicsStore (ask recipeQuestion)) =
           [(Setup, Connect), (Setup, CountDocuments (FileIdEq ''physics'')),
            (Setup, EmbedQuery recipeQuestion),
            (Stage0, Aggregate (vectorSearchPipeline ''physics'' qe))] @ mid @
           [(Gate, Find (FileIdEq ''physics'') 3), (Teardown, Close)] \<and>
         list_all (\<lambda>e. fst e = Stage0) mid)"
proof -
  have r: "fst (POST physicsStore (ask recipeQuestion)) = AnswerResponse unrelatedAnswer []"
    by (simp add: recipe_POST)
  from rejection_after_vector_search[OF r] show ?thesis using r by (simp add: ask_def)
qed

text \<open>
  C3 as stated fails: the recipe question is rejected only after the count, five
  aggregation calls and a \<open>findOne\<close> of stage 0, and the sample query of the check.
\<close>

theorem rejection_counterexample:
  "fst (POST physicsStore (ask recipeQuestion)) = AnswerResponse unrelatedAnswer [] \<and>
   snd (POST physicsStore (ask recipeQuestion)) =
      [(Setup, Connect), (Setup, CountDocuments (FileIdEq ''physics'')),
       (Setup, EmbedQuery recipeQuestion),
       (Stage0, Aggregate (vectorSearchPipeline ''physics'' [1 / 2, 1 / 4])),
       (Stage0, FindOne MatchAll),
       (Stage0, Aggregate (altPipeline ''default'' [1 / 2, 1 / 4])),
       (Stage0, Aggregate (altPipeline ''vector_search_index'' [1 / 2, 1 / 4])),
       (Stage0, Aggregate (altPipeline ''embeddings_index'' [1 / 2, 1 / 4])),
       (Gate, Find (FileIdEq ''physics'') 3), (Teardown, Close)]"
  by (simp add: recipe_POST)

section \<open>C4: failure of the embedding service\<close>

text \<open>
  C4, as amended. When the embedding call for the question throws (after the connection
  and a non-zero chunk count), the request ends with the response \<open>Internal Server Error\<close>
  of status 500, and nothing but the connection, the count and the embedding call has been
  made: no stage of the cascade runs.
\<close>

theorem embedding_failure_500:
  "body_messages body \<noteq> [] \<Longrightarrow> msg_content (last (body_messages body)) = question \<Longrightarrow>
   question \<noteq> [] \<Longrightarrow> connect w = Inr () \<Longrightarrow>
   countDocuments w (FileIdEq (body_pdfId body)) = Inr n \<Longrightarrow> n \<noteq> 0 \<Longrightarrow>
   embedQuery w question = Inl e \<Longrightarrow>
   POST w body =
     (ErrorResponse ''Internal Server Error'' 500,
      [(Setup, Connect), (Setup, CountDocuments (FileIdEq (body_pdfId body))),
       (Setup, EmbedQuery question)])"
  by (cases "body_messages body") (simp_all add: POST_def answerQuestion_def io_simps)

text \<open>The amended C4 at a request to the collection whose embedding service is down.\<close>

theorem embedding_failure_500_witness:
  "POST embeddingDown (ask ''what is a photon'') =
     (ErrorResponse ''Internal Server Error'' 500,
      [(Setup, Connect), (Setup, CountDocuments (FileIdEq ''physics'')),
       (Setup, EmbedQuery ''what is a photon'')])"
  using embedding_failure_500[of "ask ''what is a photon''" "''what is a photon''" embeddingDown 1
      "Error ''quota exceeded''"]
  by (simp add: ask_def embeddingDown_def physicsStore_def)

text \<open>
  C4 as stated fails: with the embedding service down the request is answered with the
  error response of status 500, and every call made is one of the three opening calls.
\<close>

theorem embedding_failure_counterexample:
  "embedQuery embeddingDown ''what is a photon'' = Inl (Error ''quota exceeded'') \<and>
   fst (POST embeddingDown (ask ''what is a photon'')) = ErrorResponse ''Internal Server Error'' 500 \<and>
   list_all (\<lambda>e. fst e = Setup) (snd (POST embeddingDown (ask ''what is a photon'')))"
  by (simp add: POST_def answerQuestion_def io_simps ask_def embeddingDown_def physicsStore_def)

section \<open>C5: every query is restricted to the requested file\<close>

text \<open>
  C5 fails on the code. The search on an alternative index carries no filter (and
  \<open>findOne({})\<close> none either), so its chunks may come from any file of the collection; for
  the request on the file \<open>physics\<close> the chunks of the cookery book become the context
  and the sources of the answer.
\<close>

theorem alternative_index_other_file:
  "POST strayIndexStore (ask ''what is a photon'') =
     (AnswerResponse (contextOf [eggChunk, flourChunk]) (sourcesOf [eggChunk, flourChunk]),
      [(Setup, Connect), (Setup, CountDocuments (FileIdEq ''physics'')),
       (Setup, EmbedQuery ''what is a photon''),
       (Stage0, Aggregate (vectorSearchPipeline ''physics'' [1 / 2, 1 / 4])),
       (Stage0, FindOne MatchAll),
       (Stage0, Aggregate (altPipeline ''default'' [1 / 2, 1 / 4])),
       (Teardown, Close)]) \<and>
   \<not> callRestricted ''physics'' (Aggregate (altPipeline ''default'' [1 / 2, 1 / 4])) \<and>
   \<not> callRestricted ''physics'' (FindOne MatchAll) \<and>
   map src_pageContent (sourcesOf [eggChunk, flourChunk]) = [''Whisk the eggs.'', ''Fold in the flour.'']"
proof -
  have c: "contextOf [eggChunk, flourChunk] \<noteq> []"
    by (simp add: contextOf_def eggChunk_def flourChunk_def orElse_def)
  have "answerQuestion strayIndexStore ''physics'' ''what is a photon'' =
     (Inr (AnswerResponse (contextOf [eggChunk, flourChunk]) (sourcesOf [eggChunk, flourChunk])),
      [(Setup, Connect), (Setup, CountDocuments (FileIdEq ''physics'')),
       (Setup, EmbedQuery ''what is a photon''),
       (Stage0, Aggregate (vectorSearchPipeline ''physics'' [1 / 2, 1 / 4])),
       (Stage0, FindOne MatchAll),
       (Stage0, Aggregate (altPipeline ''default'' [1 / 2, 1 / 4])),
       (Teardown, Close)])"
    using c
    by (simp add: answerQuestion_def retrieve_def respond_def stray_vectorSearch stray_fields
        io_simps ret_def request_def)
  then show ?thesis
    by (simp add: POST_def ask_def callRestricted_def queryRestricted_def altPipeline_def
        sourcesOf_def eggChunk_def flourChunk_def orElse_def)
qed

section \<open>C6: the first stage that yields wins\<close>

text \<open>
  C6, as amended. (a) For every request that reaches the cascade and whose stage 0 returns
  a non-empty accepted result, the answer is built from that result and the calls made are
  the three opening calls, the calls of stage 0 and the closing of the connection: the
  relevance check and the stages 1 to 4 are not invoked. (b) Whenever the cascade returns
  chunks, they are the result of the first stage, in the order 0 to 4, that is triggered
  and returns at least one chunk (and there are no chunks when no stage does), and no call
  of a later part of the handler is made. Here the stages 1, 2 and 3 are alternatives:
  stage 2 is triggered only when stage 1 is not, stage 3 only when neither is.
\<close>

theorem first_stage_wins:
  "(body_messages body \<noteq> [] \<and> msg_content (last (body_messages body)) = question \<and>
    question \<noteq> [] \<and> body_pdfId body = pdfId \<and> connect w = Inr () \<and>
    countDocuments w (FileIdEq pdfId) = Inr n \<and> n \<noteq> 0 \<and> embedQuery w question = Inr qe \<and>
    fst (vectorSearch w pdfId qe) = Inr docs0 \<and> docs0 \<noteq> [] \<longrightarrow>
      POST w body =
        (respond w question docs0 n,
         [(Setup, Connect), (Setup, CountDocuments (FileIdEq pdfId)), (Setup, EmbedQuery question)] @
         snd (vectorSearch w pdfId qe) @ [(Teardown, Close)]) \<and>
      list_all (\<lambda>e. fst e = Stage0) (snd (vectorSearch w pdfId qe))) \<and>
   (fst (retrieve w pdfId question qe) = Inr (Retrieved docs) \<longrightarrow>
      (case filter (stageYields w pdfId (toLowerCase question) qe) cascadeOrder of
         [] \<Rightarrow> docs = []
       | st # _ \<Rightarrow>
           fst (runStage w pdfId (toLowerCase question) qe st) = Inr docs \<and>
           list_all (\<lambda>e. phaseIndex (fst e) \<le> phaseIndex st) (snd (retrieve w pdfId question qe))))"
proof (intro conjI impI)
  obtain d0 mid where vs: "vectorSearch w pdfId qe =
      (Inr d0, (Stage0, Aggregate (vectorSearchPipeline pdfId qe)) # mid)"
    and mid: "list_all (\<lambda>e. fst e = Stage0) mid"
    using vectorSearch_shape by blast
  let ?tr0 = "(Stage0, Aggregate (vectorSearchPipeline pdfId qe)) # mid"
  have tr0: "list_all (\<lambda>e. fst e = Stage0) ?tr0" using mid by simp
  {
    assume a: "body_messages body \<noteq> [] \<and> msg_content (last (body_messages body)) = question \<and>
      question \<noteq> [] \<and> body_pdfId body = pdfId \<and> connect w = Inr () \<and>
      countDocuments w (FileIdEq pdfId) = Inr n \<and> n \<noteq> 0 \<and> embedQuery w question = Inr qe \<and>
      fst (vectorSearch w pdfId qe) = Inr docs0 \<and> docs0 \<noteq> []"
    then have "d0 = docs0" "docs0 \<noteq> []" using vs by auto
    then have r: "retrieve w pdfId question qe = (Inr (Retrieved docs0), ?tr0)"
      by (simp add: retrieve_unfold vs)
    show "POST w body =
        (respond w question docs0 n,
         [(Setup, Connect), (Setup, CountDocuments (FileIdEq pdfId)), (Setup, EmbedQuery question)] @
         snd (vectorSearch w pdfId qe) @ [(Teardown, Close)])"
      using a r vs by (simp add: POST_unfold answerQuestion_unfold)
    show "list_all (\<lambda>e. fst e = Stage0) (snd (vectorSearch w pdfId qe))"
      using vs mid by simp
  }
  assume R: "fst (retrieve w pdfId question qe) = Inr (Retrieved docs)"
  let ?ql = "toLowerCase question"
  let ?Y = "stageYields w pdfId ?ql qe"
  let ?goal = "case filter ?Y cascadeOrder of
         [] \<Rightarrow> docs = []
       | st # _ \<Rightarrow>
           fst (runStage w pdfId ?ql qe st) = Inr docs \<and>
           list_all (\<lambda>e. phaseIndex (fst e) \<le> phaseIndex st) (snd (retrieve w pdfId question qe))"
  show ?goal
  proof (cases "d0 = []")
    case False
    then have r: "retrieve w pdfId question qe = (Inr (Retrieved d0), ?tr0)"
      by (simp add: retrieve_unfold vs)
    then have "docs = d0" using R by simp
    moreover have "?Y Stage0" using vs False by (simp add: stageYields_def nonEmptyResult_def)
    ultimately show ?thesis using r vs events_le[OF tr0, of 1]
      by (simp add: cascadeOrder_def)
  next
    case True
    then have y0: "\<not> ?Y Stage0" using vs by (simp add: stageYields_def nonEmptyResult_def)
    obtain g trg where g: "relevanceGate w pdfId ?ql = (g, trg)" by fastforce
    have trg: "list_all (\<lambda>e. fst e = Gate) trg"
      using relevanceGate_events[of w pdfId ?ql] g by simp
    have gv: "g = Inr False"
      using R True by (auto simp: retrieve_unfold vs g split: sum.splits if_splits)
    define st where
      "st = (if isListingRequest ?ql then Stage1 else if isOverviewRequest ?ql then Stage2 else Stage3)"
    have stc: "(st = Stage1 \<and> isListingRequest ?ql) \<or>
        (st = Stage2 \<and> \<not> isListingRequest ?ql \<and> isOverviewRequest ?ql) \<or>
        (st = Stage3 \<and> \<not> isListingRequest ?ql \<and> \<not> isOverviewRequest ?ql)"
      by (simp add: st_def)
    obtain f tr1 where f: "fallbackSearch w pdfId ?ql = (f, tr1)" by fastforce
    have run: "runStage w pdfId ?ql qe st = (f, tr1)"
      using f by (auto simp: st_def fallbackSearch_def split: if_splits)
    have "list_all (\<lambda>e. fst e = st) (snd (runStage w pdfId ?ql qe st))"
      using stc structureSearch_events[of w pdfId] overviewSearch_events[of w pdfId]
        keywordSearch_events[of w pdfId ?ql] by auto
    then have tr1: "list_all (\<lambda>e. fst e = st) tr1" using run by simp
    have idx: "3 \<le> phaseIndex st" "phaseIndex st \<le> 5" using stc by auto
    obtain d1 where fv: "f = Inr d1"
      using R True by (cases f) (auto simp: retrieve_unfold vs g gv f)
    have y: "?Y Stage1 \<longleftrightarrow> st = Stage1 \<and> d1 \<noteq> []"
      "?Y Stage2 \<longleftrightarrow> st = Stage2 \<and> d1 \<noteq> []"
      "?Y Stage3 \<longleftrightarrow> st = Stage3 \<and> d1 \<noteq> []"
      using stc run fv by (auto simp: stageYields_def nonEmptyResult_def)
    have lead: "list_all (\<lambda>e. phaseIndex (fst e) \<le> phaseIndex st) (?tr0 @ trg @ tr1)"
      using events_le[OF tr0, of "phaseIndex st"] events_le[OF trg, of "phaseIndex st"]
        events_le[OF tr1, of "phaseIndex st"] idx by simp
    show ?thesis
    proof (cases "d1 = []")
      case False
      then have r: "retrieve w pdfId question qe = (Inr (Retrieved d1), ?tr0 @ trg @ tr1)"
        using True by (simp add: retrieve_unfold vs g gv f fv)
      then have d: "docs = d1" using R by simp
      have "\<exists>rest. filter ?Y cascadeOrder = st # rest"
        using y0 y stc False by (auto simp: cascadeOrder_def)
      then obtain rest where "filter ?Y cascadeOrder = st # rest" by blast
      then show ?thesis using r d run fv lead by simp
    next
      case d1: True
      obtain a where a: "aggregate w (samplePipeline pdfId) = a" by simp
      obtain d2 where av: "a = Inr d2"
        using R True d1 by (cases a) (auto simp: retrieve_unfold vs g gv f fv a)
      have r: "retrieve w pdfId question qe =
          (Inr (Retrieved d2), ?tr0 @ trg @ tr1 @ [(Stage4, Aggregate (samplePipeline pdfId))])"
        using True d1 by (simp add: retrieve_unfold vs g gv f fv a av)
      then have d: "docs = d2" using R by simp
      have run4: "runStage w pdfId ?ql qe Stage4 = (Inr d2, [(Stage4, Aggregate (samplePipeline pdfId))])"
        using a av by (simp add: diverseSample_def request_def)
      have "list_all (\<lambda>e. phaseIndex (fst e) \<le> 6) (?tr0 @ trg @ tr1)"
        using events_le_mono[OF lead, of 6] idx by simp
      then have all6: "list_all (\<lambda>e. phaseIndex (fst e) \<le> phaseIndex Stage4)
          (?tr0 @ trg @ tr1 @ [(Stage4, Aggregate (samplePipeline pdfId))])"
        by simp
      have y4: "?Y Stage4 \<longleftrightarrow> d2 \<noteq> []"
        using run4 by (simp add: stageYields_def nonEmptyResult_def)
      have "filter ?Y cascadeOrder = (if d2 \<noteq> [] then [Stage4] else [])"
        using y0 y y4 d1 by (simp add: cascadeOrder_def)
      then show ?thesis using d r run4 all6 by simp
    qed
  qed
qed

text \<open>The amended C6 at a request answered by stage 0, and at the question \<open>why\<close>,
  answered by stage 4.\<close>

theorem first_stage_wins_witness:
  "fst (vectorSearch indexedStore ''physics'' [1 / 2, 1 / 4]) = Inr [scoredChunk] \<and>
   POST indexedStore (ask ''what is a photon'') =
     (respond indexedStore ''what is a photon'' [scoredChunk] 1,
      [(Setup, Connect), (Setup, CountDocuments (FileIdEq ''physics'')),
       (Setup, EmbedQuery ''what is a photon''),
       (Stage0, Aggregate (vectorSearchPipeline ''physics'' [1 / 2, 1 / 4])),
       (Teardown, Close)]) \<and>
   fst (retrieve physicsStore ''physics'' ''why'' [1 / 2, 1 / 4]) = Inr (Retrieved [photonChunk]) \<and>
   filter (stageYields physicsStore ''physics'' (toLowerCase ''why'') [1 / 2, 1 / 4]) cascadeOrder
     = [Stage4] \<and>
   fst (runStage physicsStore ''physics'' (toLowerCase ''why'') [1 / 2, 1 / 4] Stage4)
     = Inr [photonChunk] \<and>
   list_all (\<lambda>e. phaseIndex (fst e) \<le> phaseIndex Stage4)
     (snd (retrieve physicsStore ''physics'' ''why'' [1 / 2, 1 / 4]))"
  using first_stage_wins[of "ask ''what is a photon''" "''what is a photon''" "''physics''"
      indexedStore 1 "[1 / 2, 1 / 4]" "[scoredChunk]" "[]"]
    first_stage_wins[of "ask ''why''" "''why''" "''physics''" physicsStore 1 "[1 / 2, 1 / 4]" "[]"
      "[photonChunk]"]
  by (simp add: indexed_vectorSearch why_retrieve why_lower why_yields ask_def indexed_fields)

text \<open>
  C6 as stated fails, with the triggers as the specification words them. The question
  \<open>list chapter details of pdf\<close> triggers stage 1 and stage 2. Stage 1 finds nothing and
  stage 2 would return a chunk, so stage 2 is the first stage that is triggered and
  returns a chunk; but the handler never runs it, goes on to stage 4, and the final result
  is the sample.
\<close>

theorem first_stage_counterexample:
  "specTriggered (toLowerCase listingQuestion) Stage1 \<and>
   specTriggered (toLowerCase listingQuestion) Stage2 \<and>
   filter (specYields overviewStore ''physics'' (toLowerCase listingQuestion) [1 / 2, 1 / 4]) cascadeOrder
     = [Stage2, Stage4] \<and>
   fst (runStage overviewStore ''physics'' (toLowerCase listingQuestion) [1 / 2, 1 / 4] Stage2)
     = Inr [introChunk] \<and>
   retrieve overviewStore ''physics'' listingQuestion [1 / 2, 1 / 4] =
     (Inr (Retrieved [bodyChunk, introChunk]),
      [(Stage0, Aggregate (vectorSearchPipeline ''physics'' [1 / 2, 1 / 4])),
       (Stage0, FindOne MatchAll),
       (Stage0, Aggregate (altPipeline ''default'' [1 / 2, 1 / 4])),
       (Stage0, Aggregate (altPipeline ''vector_search_index'' [1 / 2, 1 / 4])),
       (Stage0, Aggregate (altPipeline ''embeddings_index'' [1 / 2, 1 / 4])),
       (Stage1, Find (structureQuery ''physics'') 10),
       (Stage1, Find (headingQuery ''physics'') 10),
       (Stage4, Aggregate (samplePipeline ''physics''))]) \<and>
   [bodyChunk, introChunk] \<noteq> [introChunk]"
proof -
  have g: "relevanceGate overviewStore ''physics'' listingQuestion = (Inr False, [])"
    by (simp add: relevanceGate_def listing_shape ret_def)
  have f: "fallbackSearch overviewStore ''physics'' listingQuestion =
     (Inr [], [(Stage1, Find (structureQuery ''physics'') 10), (Stage1, Find (headingQuery ''physics'') 10)])"
    by (simp add: fallbackSearch_def listing_shape overview_stages)
  have s: "aggregate overviewStore (samplePipeline ''physics'') = Inr [bodyChunk, introChunk]"
    by (simp add: overviewStore_def)
  have r: "retrieve overviewStore ''physics'' listingQuestion [1 / 2, 1 / 4] =
     (Inr (Retrieved [bodyChunk, introChunk]),
      [(Stage0, Aggregate (vectorSearchPipeline ''physics'' [1 / 2, 1 / 4])),
       (Stage0, FindOne MatchAll),
       (Stage0, Aggregate (altPipeline ''default'' [1 / 2, 1 / 4])),
       (Stage0, Aggregate (altPipeline ''vector_search_index'' [1 / 2, 1 / 4])),
       (Stage0, Aggregate (altPipeline ''embeddings_index'' [1 / 2, 1 / 4])),
       (Stage1, Find (structureQuery ''physics'') 10),
       (Stage1, Find (headingQuery ''physics'') 10),
       (Stage4, Aggregate (samplePipeline ''physics''))])"
    by (simp add: retrieve_unfold overview_vectorSearch listing_shape g f s)
  have y: "filter (specYields overviewStore ''physics'' listingQuestion [1 / 2, 1 / 4]) cascadeOrder
     = [Stage2, Stage4]"
    by (simp add: cascadeOrder_def specYields_def nonEmptyResult_def overview_vectorSearch
        listing_shape overview_stages)
  show ?thesis using r y by (simp add: listing_shape overview_stages)
qed

section \<open>C7: questions without a word longer than three characters\<close>

text \<open>
  C7, as amended. A question with no word longer than three characters that matches none
  of the unrelated patterns is not rejected, whatever the sampled documents are.
\<close>

theorem short_question_relevant:
  "questionTerms questionLower = [] \<Longrightarrow> \<not> isObviouslyUnrelated questionLower \<Longrightarrow>
   \<not> questionRejected questionLower sampleDocs \<and>
   fst (relevanceGate w pdfId questionLower) \<noteq> Inr True"
  by (cases "findLimit w (FileIdEq pdfId) 3")
     (simp_all add: questionRejected_def relevanceGate_def io_simps ret_def)

text \<open>The amended C7 at the question \<open>why\<close>.\<close>

theorem short_question_relevant_witness:
  "questionTerms ''why'' = [] \<and> \<not> isObviouslyUnrelated ''why'' \<and>
   \<not> questionRejected ''why'' [photonChunk] \<and>
   fst (relevanceGate physicsStore ''physics'' ''why'') \<noteq> Inr True"
  using short_question_relevant[of "''why''" "[photonChunk]" physicsStore "''physics''"]
    why_terms why_related by simp

text \<open>
  C7 as stated fails: the question \<open>buy\<close> has no word longer than three characters and
  is rejected, since it matches the pattern \<open>shopping|purchase|buy\<close>.
\<close>

theorem short_question_counterexample:
  "questionTerms (toLowerCase ''buy'') = [] \<and>
   questionRejected (toLowerCase ''buy'') [photonChunk] \<and>
   fst (POST physicsStore (ask ''buy'')) = AnswerResponse unrelatedAnswer []"
proof -
  have "relevanceGate physicsStore ''physics'' ''buy'' = (Inr True, [(Gate, Find (FileIdEq ''physics'') 3)])"
    by (simp add: relevanceGate_def buy_facts questionRejected_def physics_fields io_simps ret_def)
  then have "fst (retrieve physicsStore ''physics'' ''buy'' [1 / 2, 1 / 4]) = Inr Irrelevant"
    by (simp add: retrieve_def physics_vectorSearch buy_facts io_simps ret_def)
  then have "fst (POST physicsStore (ask ''buy'')) = AnswerResponse unrelatedAnswer []"
    by (auto simp: POST_unfold answerQuestion_unfold ask_def physics_fields
        split: prod.splits sum.splits retrieval.splits)
  then show ?thesis by (simp add: buy_facts questionRejected_def)
qed

section \<open>C8: ingesting a file again\<close>

text \<open>
  C8. Let the embedding service answer for every text. After a first ingestion (whatever
  it stored), a second ingestion of a non-empty list of chunks that all carry the file
  identifier \<open>f\<close> succeeds and leaves, for \<open>f\<close>, exactly the chunks of the second
  ingestion in the collection: their number is the number of chunks ingested.
\<close>

theorem reingestion_replaces:
  assumes "list_all (\<lambda>d. \<not> isl (embeddings (pageContent d))) (docs1 @ docs2)"
    and "list_all (\<lambda>d. md_fileId (metadata d) = Some f) docs2"
    and "docs2 \<noteq> []" and "f \<noteq> []"
  shows "\<exists>coll1 coll2 vs.
           embedAndStoreDocs embeddings docs1 coll0 = (Inr (), coll1) \<and>
           embedAndStoreDocs embeddings docs2 coll1 = (Inr (), coll2) \<and>
           embedDocuments embeddings (map pageContent docs2) = Inr vs \<and>
           length vs = length docs2 \<and>
           filter (\<lambda>c. doc_fileId c = Some f) coll2 = map2 storedChunk docs2 vs \<and>
           countByFileId coll2 f = length docs2"
proof -
  from assms(1) have e1: "list_all (\<lambda>d. \<not> isl (embeddings (pageContent d))) docs1"
    and e2: "list_all (\<lambda>d. \<not> isl (embeddings (pageContent d))) docs2" by simp_all
  from embedAndStoreDocs_succeeds[OF e1] obtain coll1 where
    c1: "embedAndStoreDocs embeddings docs1 coll0 = (Inr (), coll1)" by blast
  have "list_all (\<lambda>t. \<not> isl (embeddings t)) (map pageContent docs2)"
    using e2 by (simp add: list_all_iff)
  from embedDocuments_total[OF this] obtain vs where
    vs: "embedDocuments embeddings (map pageContent docs2) = Inr vs" "length vs = length docs2"
    by auto
  note f2 = assms(2)
  obtain d ds where d: "docs2 = d # ds" using assms(3) by (cases docs2) auto
  then have first: "md_fileId (metadata d) = Some f" using f2 by simp
  let ?coll2 = "insertMany (deleteMany coll1 f) (map2 storedChunk docs2 vs)"
  have c2: "embedAndStoreDocs embeddings docs2 coll1 = (Inr (), ?coll2)"
    using vs first assms(4) deleteMany_when_present[of coll1 f]
    by (simp add: embedAndStoreDocs_def fromDocuments_def Let_def d)
  have kept: "filter (\<lambda>c. doc_fileId c = Some f) ?coll2 = map2 storedChunk docs2 vs"
    using storedChunk_fileId[OF vs(2) f2] deleteMany_none[of f coll1]
    by (simp add: insertMany_def)
  then have "countByFileId ?coll2 f = length docs2"
    using vs(2) by (simp add: countByFileId_def)
  then show ?thesis using c1 c2 vs kept by blast
qed

text \<open>C8 at two chunks ingested for the file \<open>physics\<close>, then one.\<close>

theorem reingestion_replaces_witness:
  "(\<exists>coll1 coll2.
      embedAndStoreDocs lengthEmbeddings [pageDoc ''physics'' ''photon'', pageDoc ''physics'' ''electron'']
        [] = (Inr (), coll1) \<and>
      embedAndStoreDocs lengthEmbeddings [pageDoc ''physics'' ''helium''] coll1 = (Inr (), coll2) \<and>
      filter (\<lambda>c. doc_fileId c = Some ''physics'') coll2 =
        [storedChunk (pageDoc ''physics'' ''helium'') [6]] \<and>
      countByFileId coll2 ''physics'' = 1)"
  using reingestion_replaces[of lengthEmbeddings
      "[pageDoc ''physics'' ''photon'', pageDoc ''physics'' ''electron'']"
      "[pageDoc ''physics'' ''helium'']" "''physics''" "[]"]
  by (simp add: lengthEmbeddings_def pageDoc_def)

section \<open>C9: requests without a question\<close>

text \<open>
  C9. A request whose list of messages is empty, or whose last message has an empty
  content, is answered with status 400 (\<open>No messages provided\<close>, respectively \<open>Question
  is required\<close>) and makes no call at all: no connection, no query, no embedding.
\<close>

theorem no_question_400:
  "body_messages body = [] \<or> msg_content (last (body_messages body)) = [] \<Longrightarrow>
   POST w body =
     (ErrorResponse (if body_messages body = [] then ''No messages provided''
                     else ''Question is required'') 400, [])"
  by (auto simp: POST_def split: list.splits)

text \<open>C9 at a request without messages and at a request with an empty question.\<close>

theorem no_question_400_witness:
  "POST physicsStore \<lparr>body_messages = [], body_pdfId = ''physics''\<rparr> =
     (ErrorResponse ''No messages provided'' 400, []) \<and>
   POST physicsStore (ask []) = (ErrorResponse ''Question is required'' 400, [])"
  using no_question_400[of "\<lparr>body_messages = [], body_pdfId = ''physics''\<rparr>" physicsStore]
    no_question_400[of "ask []" physicsStore]
  by (simp add: ask_def)

section \<open>C10: the keyword stage without keywords\<close>

text \<open>
  C10. When stage 0 found nothing, the relevance check let the question pass, the question
  is neither a listing nor an overview request and has no meaningful keyword, then the
  keyword strategy makes no call and yields nothing, and the result of the cascade is the
  answer of the aggregation \<open>[$match fileId, $sample 8]\<close>, the last call made.
\<close>

theorem no_keywords_sample:
  assumes "fst (vectorSearch w pdfId qe) = Inr []"
    and "fst (relevanceGate w pdfId (toLowerCase question)) = Inr False"
    and "\<not> isListingRequest (toLowerCase question)"
    and "\<not> isOverviewRequest (toLowerCase question)"
    and "meaningfulKeywords (toLowerCase question) = []"
  shows "fallbackSearch w pdfId (toLowerCase question) = (Inr [], []) \<and>
         retrieve w pdfId question qe =
           ((case aggregate w [Match (FileIdEq pdfId), Sample 8] of
               Inl e \<Rightarrow> Inl e
             | Inr docs \<Rightarrow> Inr (Retrieved docs)),
            snd (vectorSearch w pdfId qe) @ snd (relevanceGate w pdfId (toLowerCase question)) @
              [(Stage4, Aggregate [Match (FileIdEq pdfId), Sample 8])]) \<and>
         list_all (\<lambda>e. fst e \<noteq> Stage3) (snd (retrieve w pdfId question qe))"
proof -
  have fb: "fallbackSearch w pdfId (toLowerCase question) = (Inr [], [])"
    using assms(3-5) by (simp add: fallbackSearch_def keywordSearch_def ret_def)
  obtain tr0 where vs: "vectorSearch w pdfId qe = (Inr [], tr0)"
    using assms(1) by (cases "vectorSearch w pdfId qe") auto
  obtain trg where g: "relevanceGate w pdfId (toLowerCase question) = (Inr False, trg)"
    using assms(2) by (cases "relevanceGate w pdfId (toLowerCase question)") auto
  have r: "retrieve w pdfId question qe =
           ((case aggregate w [Match (FileIdEq pdfId), Sample 8] of
               Inl e \<Rightarrow> Inl e
             | Inr docs \<Rightarrow> Inr (Retrieved docs)),
            tr0 @ trg @ [(Stage4, Aggregate [Match (FileIdEq pdfId), Sample 8])])"
    by (simp add: retrieve_unfold vs g fb samplePipeline_def split: sum.splits)
  have "list_all (\<lambda>e. fst e = Stage0) tr0"
    using vectorSearch_shape[of w pdfId qe] vs by auto
  then have 0: "list_all (\<lambda>e. fst e \<noteq> Stage3) tr0" by (auto simp: list_all_iff)
  have "list_all (\<lambda>e. fst e = Gate) trg"
    using relevanceGate_events[of w pdfId "toLowerCase question"] g by simp
  then have 1: "list_all (\<lambda>e. fst e \<noteq> Stage3) trg" by (auto simp: list_all_iff)
  show ?thesis using fb r vs g 0 1 by simp
qed

text \<open>C10 at the question \<open>why\<close> on the physics collection.\<close>

theorem no_keywords_sample_witness:
  "fst (vectorSearch physicsStore ''physics'' [1 / 2, 1 / 4]) = Inr [] \<and>
   fst (relevanceGate physicsStore ''physics'' (toLowerCase ''why'')) = Inr False \<and>
   \<not> isListingRequest (toLowerCase ''why'') \<and> \<not> isOverviewRequest (toLowerCase ''why'') \<and>
   meaningfulKeywords (toLowerCase ''why'') = [] \<and>
   fallbackSearch physicsStore ''physics'' (toLowerCase ''why'') = (Inr [], []) \<and>
   retrieve physicsStore ''physics'' ''why'' [1 / 2, 1 / 4] =
     (Inr (Retrieved [photonChunk]),
      [(Stage0, Aggregate (vectorSearchPipeline ''physics'' [1 / 2, 1 / 4])),
       (Stage0, FindOne MatchAll),
       (Stage0, Aggregate (altPipeline ''default'' [1 / 2, 1 / 4])),
       (Stage0, Aggregate (altPipeline ''vector_search_index'' [1 / 2, 1 / 4])),
       (Stage0, Aggregate (altPipeline ''embeddings_index'' [1 / 2, 1 / 4])),
       (Gate, Find (FileIdEq ''physics'') 3),
       (Stage4, Aggregate [Match (FileIdEq ''physics''), Sample 8])])"
proof -
  have g: "relevanceGate physicsStore ''physics'' ''why'' = (Inr False, [(Gate, Find (FileIdEq ''physics'') 3)])"
    by (simp add: relevanceGate_def why_shape why_terms why_related questionRejected_def
        physics_fields io_simps ret_def)
  have s: "aggregate physicsStore [Match (FileIdEq ''physics''), Sample 8] = Inr [photonChunk]"
    using physics_fields(5) by (simp add: samplePipeline_def)
  show ?thesis
    using no_keywords_sample[of physicsStore "''physics''" "[1 / 2, 1 / 4]" "''why''"]
    by (simp add: physics_vectorSearch why_lower g why_shape why_terms s)
qed

end
